theory Spec2Isabelle
  imports Complex_Main "HOL-Library.AList" "HOL-Library.Multiset"
begin

section \<open>JavaScript values\<close>

text \<open>
  The services receive request bodies that were produced by \<^verbatim>\<open>JSON.parse\<close> and hand
  documents to the store. A JavaScript number is a double: a finite value, a NaN or one
  of the two infinities (\<^verbatim>\<open>JSON.parse("1e999")\<close> is \<^verbatim>\<open>Infinity\<close>). The finite values are kept
  as reals; the sign of zero is not tracked, and no arithmetic is rounded because the
  services do none on payload numbers.
\<close>

datatype jsnum = Finite real | NaN | PosInfinity | NegInfinity

datatype jsval =
    Undefined
  | Null
  | Bool bool
  | Num jsnum
  | Str string
  | DateObj jsnum
  | Arr "jsval list"
  | Obj "(string \<times> jsval) list"

text \<open>
  \<open>DateObj t\<close> is a \<^verbatim>\<open>Date\<close> whose time value is \<open>t\<close> (\<open>NaN\<close> for an invalid date).
  A document and a request body are objects: association lists from keys to values.
\<close>

type_synonym document = "(string \<times> jsval) list"

definition getProp :: "document \<Rightarrow> string \<Rightarrow> jsval" where
  \<comment> \<open>\<^verbatim>\<open>data[key]\<close>: a missing key reads as \<^verbatim>\<open>undefined\<close>.\<close>
  "getProp d k = (case map_of d k of None \<Rightarrow> Undefined | Some v \<Rightarrow> v)"

definition has_key :: "document \<Rightarrow> string \<Rightarrow> bool" where
  \<comment> \<open>\<^verbatim>\<open>key in data\<close>\<close>
  "has_key d k = (map_of d k \<noteq> None)"

subsection \<open>Strings\<close>

text \<open>
  \<^verbatim>\<open>String.prototype.toLowerCase\<close> on the ASCII letters; a string is a list of bytes, and
  bytes outside \<^verbatim>\<open>A-Z\<close> are left as they are.
\<close>

fun toLowerCase_char :: "char \<Rightarrow> char" where
  "toLowerCase_char (Char b0 b1 b2 b3 b4 b5 b6 b7) =
     (let n = (of_char (Char b0 b1 b2 b3 b4 b5 b6 b7) :: nat)
      in if 65 \<le> n \<and> n \<le> 90 then Char b0 b1 b2 b3 b4 True b6 b7
         else Char b0 b1 b2 b3 b4 b5 b6 b7)"

definition toLowerCase :: "string \<Rightarrow> string" where
  "toLowerCase s = map toLowerCase_char s"

subsection \<open>The built-in conversions\<close>

text \<open>
  \<^verbatim>\<open>Number(v)\<close>, \<^verbatim>\<open>new Date(v)\<close> and template literals are the language's, not the
  repository's. Their results on \<^verbatim>\<open>undefined\<close>, \<^verbatim>\<open>null\<close>, booleans, numbers and dates
  are fixed by ECMAScript and written out below. What they do on the text of a string
  (the grammar of numeric literals with its rounding, the date formats an engine
  accepts, the printing of a number) is taken as a parameter: every theorem holds for
  every runtime.
\<close>

record js_runtime =
  StringToNumber :: "string \<Rightarrow> jsnum"
  Date_parse :: "string \<Rightarrow> jsnum"
  ObjectToString :: "jsval \<Rightarrow> string"
  NumberToString :: "jsnum \<Rightarrow> string"

fun Number :: "js_runtime \<Rightarrow> jsval \<Rightarrow> jsnum" where
  "Number js Undefined = NaN"
| "Number js Null = Finite 0"
| "Number js (Bool b) = Finite (if b then 1 else 0)"
| "Number js (Num n) = n"
| "Number js (Str s) = StringToNumber js s"
| "Number js (DateObj t) = t"
| "Number js (Arr xs) = StringToNumber js (ObjectToString js (Arr xs))"
| "Number js (Obj kvs) = StringToNumber js (ObjectToString js (Obj kvs))"

fun isNaN :: "jsnum \<Rightarrow> bool" where
  "isNaN NaN = True"
| "isNaN _ = False"


definition trunc :: "real \<Rightarrow> real" where
  "trunc x = (if 0 \<le> x then of_int \<lfloor>x\<rfloor> else of_int \<lceil>x\<rceil>)"

fun TimeClip :: "jsnum \<Rightarrow> jsnum" where
  "TimeClip (Finite x) = (if \<bar>x\<bar> > 8640000000000000 then NaN else Finite (trunc x))"
| "TimeClip _ = NaN"

fun newDate :: "js_runtime \<Rightarrow> jsval \<Rightarrow> jsnum" where
  \<comment> \<open>the time value of \<^verbatim>\<open>new Date(v)\<close>\<close>
  "newDate js (DateObj t) = t"
| "newDate js (Str s) = Date_parse js s"
| "newDate js (Arr xs) = Date_parse js (ObjectToString js (Arr xs))"
| "newDate js (Obj kvs) = Date_parse js (ObjectToString js (Obj kvs))"
| "newDate js v = TimeClip (Number js v)"

fun Boolean :: "jsval \<Rightarrow> bool" where
  \<comment> \<open>truthiness: \<^verbatim>\<open>Boolean(v)\<close>, \<^verbatim>\<open>!v\<close>, \<^verbatim>\<open>if (v)\<close>\<close>
  "Boolean Undefined = False"
| "Boolean Null = False"
| "Boolean (Bool b) = b"
| "Boolean (Num n) = (n \<noteq> NaN \<and> n \<noteq> Finite 0)"
| "Boolean (Str s) = (s \<noteq> [])"
| "Boolean _ = True"

fun isArray :: "jsval \<Rightarrow> bool" where
  "isArray (Arr xs) = True"
| "isArray _ = False"

fun typeof_object :: "jsval \<Rightarrow> bool" where
  \<comment> \<open>\<^verbatim>\<open>typeof v === 'object'\<close>: \<^verbatim>\<open>null\<close>, arrays, dates and plain objects\<close>
  "typeof_object Null = True"
| "typeof_object (Arr xs) = True"
| "typeof_object (Obj kvs) = True"
| "typeof_object (DateObj t) = True"
| "typeof_object _ = False"

fun ToString :: "js_runtime \<Rightarrow> jsval \<Rightarrow> string" where
  \<comment> \<open>a value inside a template literal\<close>
  "ToString js (Str s) = s"
| "ToString js Undefined = ''undefined''"
| "ToString js Null = ''null''"
| "ToString js (Bool b) = (if b then ''true'' else ''false'')"
| "ToString js (Num n) = NumberToString js n"
| "ToString js v = ObjectToString js v"

section \<open>Schema definitions\<close>

text \<open>
  \<^verbatim>\<open>src/common/enums/mdm.enum.ts\<close> and the DTO classes \<^verbatim>\<open>FieldDefinition\<close> and
  \<^verbatim>\<open>CreateSchemaDto\<close>. The fields carry a prefix because two records share the name
  \<^verbatim>\<open>name\<close>. An optional boolean that is left out reads as false wherever the code
  tests it; an optional string is an option. \<^verbatim>\<open>validationRules\<close> is never read.
\<close>

datatype FieldType = STRING | NUMBER | BOOLEAN | DATE | OBJECT | ARRAY | MASTER

datatype RelationshipType = ONE_TO_ONE | ONE_TO_MANY | MANY_TO_ONE | MANY_TO_MANY

record FieldDefinition =
  fd_name :: string
  fd_type :: FieldType
  fd_required :: bool
  fd_unique :: bool
  fd_defaultValue :: jsval
  fd_masterType :: "string option"
  fd_relationshipType :: "RelationshipType option"

record CreateSchemaDto =
  dto_name :: string
  dto_displayName :: string
  dto_fields :: "FieldDefinition list"
  dto_groupId :: "string option"

section \<open>Errors\<close>

text \<open>
  The exceptions the services throw, with their messages. The specification's
  \<^emph>\<open>Validation\<close> and \<^emph>\<open>Conflict\<close> failures are both \<^verbatim>\<open>BadRequestException\<close> in the
  code, \<^emph>\<open>NotFound\<close> is \<^verbatim>\<open>NotFoundException\<close>. \<open>TypeError\<close> is the runtime's error for
  a method call on \<^verbatim>\<open>undefined\<close>, \<open>MongoError\<close> the store's refusal of a command.
\<close>

datatype error =
    BadRequestException string
  | NotFoundException string
  | InternalServerErrorException string
  | TypeError string
  | MongoError string

section \<open>The coercion of one field (\<^verbatim>\<open>createData\<close>)\<close>

text \<open>
  The body of the loop \<^verbatim>\<open>for (const field of schemaDef.fields)\<close>, which is the same text
  in \<^verbatim>\<open>MasterService.createData\<close> and \<^verbatim>\<open>SchemaService.createData\<close>. The result is the
  exception thrown, \<open>Inr None\<close> when nothing is written to \<^verbatim>\<open>convertedData\<close>, or
  \<open>Inr (Some w)\<close> when \<^verbatim>\<open>convertedData[field.name] = w\<close>. The \<^verbatim>\<open>catch\<close> around the switch
  rethrows a \<^verbatim>\<open>BadRequestException\<close> and the conversions of JSON values throw nothing
  else.
\<close>

definition convertField :: "js_runtime \<Rightarrow> FieldDefinition \<Rightarrow> jsval \<Rightarrow> error + jsval option" where
  "convertField js field v =
    (if v = Undefined \<and> \<not> fd_required field then Inr None
     else if fd_required field \<and> v = Undefined then
       Inl (BadRequestException (''Field '' @ fd_name field @ '' is required''))
     else if fd_type field = MASTER then Inr (Some v)
     else (case fd_type field of
        NUMBER \<Rightarrow>
          (if v \<noteq> Undefined then
             (let num = Number js v in
              if isNaN num then
                Inl (BadRequestException (''Field '' @ fd_name field @ '' must be a valid number''))
              else Inr (Some (Num num)))
           else Inr None)
      | BOOLEAN \<Rightarrow>
          (if v \<noteq> Undefined then
             (case v of
                Str s \<Rightarrow> Inr (Some (Bool (toLowerCase s = ''true'')))
              | _ \<Rightarrow> Inr (Some (Bool (Boolean v))))
           else Inr None)
      | DATE \<Rightarrow>
          (if v \<noteq> Undefined then
             (let date = newDate js v in
              if isNaN date then
                Inl (BadRequestException (''Field '' @ fd_name field @ '' must be a valid date''))
              else Inr (Some (DateObj date)))
           else Inr None)
      | ARRAY \<Rightarrow>
          (if v \<noteq> Undefined \<and> \<not> isArray v then
             Inl (BadRequestException (''Field '' @ fd_name field @ '' must be an array''))
           else Inr (Some v))
      | OBJECT \<Rightarrow>
          (if v \<noteq> Undefined \<and> \<not> typeof_object v then
             Inl (BadRequestException (''Field '' @ fd_name field @ '' must be an object''))
           else Inr (Some v))
      | _ \<Rightarrow> Inr (Some v)))"

fun convertFields :: "js_runtime \<Rightarrow> FieldDefinition list \<Rightarrow> document \<Rightarrow> document \<Rightarrow> error + document" where
  \<comment> \<open>the whole loop, from the \<^verbatim>\<open>convertedData\<close> built so far\<close>
  "convertFields js [] data convertedData = Inr convertedData"
| "convertFields js (field # rest) data convertedData =
    (case convertField js field (getProp data (fd_name field)) of
       Inl e \<Rightarrow> Inl e
     | Inr None \<Rightarrow> convertFields js rest data convertedData
     | Inr (Some w) \<Rightarrow>
         convertFields js rest data (AList.update (fd_name field) w convertedData))"

section \<open>The store and the two services' state\<close>

text \<open>
  The persistent store is MongoDB behind mongoose. What the services use of it is
  modelled directly: the \<^verbatim>\<open>schemas\<close> collection (documents \<^verbatim>\<open>{ schema: dto }\<close> in insertion
  order), the \<^verbatim>\<open>groupId\<close>s of the \<^verbatim>\<open>groups\<close> collection, the data collections by name, and
  the names of \<^verbatim>\<open>connection.models\<close>. A string matches a stored string only when both are
  equal byte for byte (the collections are created with the default collation).
  Each service keeps a cache of its own, \<^verbatim>\<open>Map<string, { schema, model }>\<close>; a model is
  the schema definition the service compiled it from, bound to the collection of the
  same lower-cased name. Both services call \<^verbatim>\<open>connection.model(name, schema, name)\<close> with
  the collection name given, for which mongoose compiles a model whether or not the
  name is registered already; \<^verbatim>\<open>new Schema(definition)\<close> is taken to accept every
  definition the services build. The state is the one after \<^verbatim>\<open>MasterService.onModuleInit\<close>
  has registered its listeners.
\<close>

datatype SchemaType = TString | TNumber | TBoolean | TDate | TObject | TArray

datatype DefaultValue = NoDefault | NanoId | DateNow | Const jsval

record PathOptions =
  p_type :: SchemaType
  p_required :: bool
  p_unique :: bool
  p_default :: DefaultValue
  p_ref :: "string option"

datatype PathDef = Single PathOptions | ArrayOf PathOptions

type_synonym schemaDefinition = "(string \<times> PathDef) list"

record cache_entry =
  ce_schema :: CreateSchemaDto
  ce_model :: schemaDefinition

record state =
  schemas :: "CreateSchemaDto list"
  groups :: "string list"
  collections :: "string \<Rightarrow> document list"
  models :: "string set"
  schemaCache :: "string \<rightharpoonup> cache_entry"
  masterCache :: "string \<rightharpoonup> cache_entry"

definition findSchema :: "state \<Rightarrow> string \<Rightarrow> CreateSchemaDto option" where
  \<comment> \<open>\<^verbatim>\<open>collection('schemas').findOne({ 'schema.name': n })\<close>\<close>
  "findSchema st n = find (\<lambda>s. dto_name s = n) (schemas st)"

definition exists_in :: "state \<Rightarrow> string \<Rightarrow> string \<Rightarrow> jsval \<Rightarrow> bool" where
  \<comment> \<open>\<^verbatim>\<open>Model.exists({ [key]: v })\<close> on the collection \<open>coll\<close>\<close>
  "exists_in st coll key v = list_ex (\<lambda>d. map_of d key = Some v) (collections st coll)"

section \<open>Building a model from a schema\<close>

definition getMongooseType :: "FieldType \<Rightarrow> SchemaType" where
  "getMongooseType t =
    (case t of STRING \<Rightarrow> TString | NUMBER \<Rightarrow> TNumber | BOOLEAN \<Rightarrow> TBoolean | DATE \<Rightarrow> TDate
     | OBJECT \<Rightarrow> TObject | ARRAY \<Rightarrow> TArray | _ \<Rightarrow> TString)"

definition systemFields :: "string \<Rightarrow> schemaDefinition" where
  \<comment> \<open>the identifier field and the four standard fields, the same in both services\<close>
  "systemFields schemaName =
    [(toLowerCase schemaName @ ''Id'',
        Single \<lparr>p_type = TString, p_required = True, p_unique = True, p_default = NanoId, p_ref = None\<rparr>),
     (''createdAt'',
        Single \<lparr>p_type = TDate, p_required = False, p_unique = False, p_default = DateNow, p_ref = None\<rparr>),
     (''updatedAt'',
        Single \<lparr>p_type = TDate, p_required = False, p_unique = False, p_default = DateNow, p_ref = None\<rparr>),
     (''isActive'',
        Single \<lparr>p_type = TBoolean, p_required = False, p_unique = False, p_default = Const (Bool True), p_ref = None\<rparr>),
     (''isDeleted'',
        Single \<lparr>p_type = TBoolean, p_required = False, p_unique = False, p_default = Const (Bool False), p_ref = None\<rparr>)]"

definition plainField :: "FieldDefinition \<Rightarrow> PathDef" where
  \<comment> \<open>the \<^verbatim>\<open>else\<close> branch: a field that is not a master\<close>
  "plainField field =
    Single \<lparr>p_type = getMongooseType (fd_type field), p_required = fd_required field,
      p_unique = fd_unique field,
      p_default = (if fd_defaultValue field \<noteq> Undefined then Const (fd_defaultValue field) else NoDefault),
      p_ref = None\<rparr>"

fun SchemaService_addFields :: "FieldDefinition list \<Rightarrow> schemaDefinition \<Rightarrow> error + schemaDefinition" where
  \<comment> \<open>\<^verbatim>\<open>createSchemaDto.fields.forEach\<close> of \<^verbatim>\<open>SchemaService.buildSchemaDefinition\<close>\<close>
  "SchemaService_addFields [] schemaDefinition = Inr schemaDefinition"
| "SchemaService_addFields (field # rest) schemaDefinition =
    (if fd_type field = MASTER then
       (case fd_masterType field of
          None \<Rightarrow> Inl (TypeError ''Cannot read properties of undefined (reading toLowerCase)'')
        | Some masterType \<Rightarrow>
            (let fieldName = toLowerCase masterType @ ''Id'' in
             case fd_relationshipType field of
               Some ONE_TO_ONE \<Rightarrow>
                 SchemaService_addFields rest (AList.update fieldName
                   (Single \<lparr>p_type = TString, p_required = fd_required field, p_unique = False,
                      p_default = NoDefault, p_ref = Some (toLowerCase masterType)\<rparr>) schemaDefinition)
             | Some MANY_TO_ONE \<Rightarrow>
                 SchemaService_addFields rest (AList.update fieldName
                   (Single \<lparr>p_type = TString, p_required = fd_required field, p_unique = False,
                      p_default = NoDefault, p_ref = Some (toLowerCase masterType)\<rparr>) schemaDefinition)
             | Some ONE_TO_MANY \<Rightarrow>
                 SchemaService_addFields rest (AList.update fieldName
                   (ArrayOf \<lparr>p_type = TString, p_required = False, p_unique = False,
                      p_default = NoDefault, p_ref = Some (toLowerCase masterType)\<rparr>) schemaDefinition)
             | Some MANY_TO_MANY \<Rightarrow>
                 SchemaService_addFields rest (AList.update fieldName
                   (ArrayOf \<lparr>p_type = TString, p_required = False, p_unique = False,
                      p_default = NoDefault, p_ref = Some (toLowerCase masterType)\<rparr>) schemaDefinition)
             | None \<Rightarrow>
                 Inl (BadRequestException (''Invalid relationship type undefined for field '' @ fd_name field))))
     else SchemaService_addFields rest (AList.update (fd_name field) (plainField field) schemaDefinition))"

definition SchemaService_buildSchemaDefinition :: "CreateSchemaDto \<Rightarrow> error + schemaDefinition" where
  "SchemaService_buildSchemaDefinition createSchemaDto =
     SchemaService_addFields (dto_fields createSchemaDto) (systemFields (dto_name createSchemaDto))"

fun MasterService_addFields :: "FieldDefinition list \<Rightarrow> schemaDefinition \<Rightarrow> error + schemaDefinition" where
  \<comment> \<open>\<^verbatim>\<open>createSchemaDto.fields.forEach\<close> of \<^verbatim>\<open>MasterService.buildSchemaDefinition\<close>: the
      relationship type is not read\<close>
  "MasterService_addFields [] schemaDefinition = Inr schemaDefinition"
| "MasterService_addFields (field # rest) schemaDefinition =
    (if fd_type field = MASTER then
       (case fd_masterType field of
          None \<Rightarrow> Inl (TypeError ''Cannot read properties of undefined (reading toLowerCase)'')
        | Some masterType \<Rightarrow>
            MasterService_addFields rest (AList.update (toLowerCase masterType @ ''Id'')
              (Single \<lparr>p_type = TString, p_required = fd_required field, p_unique = False,
                 p_default = NoDefault, p_ref = Some (toLowerCase masterType)\<rparr>) schemaDefinition))
     else MasterService_addFields rest (AList.update (fd_name field) (plainField field) schemaDefinition))"

definition MasterService_buildSchemaDefinition :: "CreateSchemaDto \<Rightarrow> error + schemaDefinition" where
  "MasterService_buildSchemaDefinition createSchemaDto =
     MasterService_addFields (dto_fields createSchemaDto) (systemFields (dto_name createSchemaDto))"

section \<open>The schema registry (\<^verbatim>\<open>SchemaService\<close>)\<close>

fun transformFields :: "FieldDefinition list \<Rightarrow> error + FieldDefinition list" where
  \<comment> \<open>\<^verbatim>\<open>fields.map(field => ...)\<close>: a master field is renamed after its \<^verbatim>\<open>masterType\<close>\<close>
  "transformFields [] = Inr []"
| "transformFields (field # rest) =
    (if fd_type field = MASTER then
       (case fd_masterType field of
          None \<Rightarrow> Inl (TypeError ''Cannot read properties of undefined (reading toLowerCase)'')
        | Some masterType \<Rightarrow>
            (case transformFields rest of
               Inl e \<Rightarrow> Inl e
             | Inr rest' \<Rightarrow> Inr (field\<lparr>fd_name := toLowerCase masterType @ ''Id''\<rparr> # rest')))
     else (case transformFields rest of Inl e \<Rightarrow> Inl e | Inr rest' \<Rightarrow> Inr (field # rest')))"

definition renamedField :: "FieldDefinition \<Rightarrow> FieldDefinition \<Rightarrow> bool" where
  \<comment> \<open>the arrow function of that \<^verbatim>\<open>map\<close> as a relation: \<open>f'\<close> is what it returns for \<open>f\<close>\<close>
  "renamedField f f' =
    (if fd_type f = MASTER
     then (case fd_masterType f of
             Some masterType \<Rightarrow> f' = f\<lparr>fd_name := toLowerCase masterType @ ''Id''\<rparr>
           | None \<Rightarrow> False)
     else f' = f)"

fun validateMasterFields :: "state \<Rightarrow> FieldDefinition list \<Rightarrow> error option" where
  \<comment> \<open>the loop of \<^verbatim>\<open>validateSchema\<close>\<close>
  "validateMasterFields st [] = None"
| "validateMasterFields st (field # rest) =
    (if fd_type field = MASTER then
       (case fd_masterType field of
          None \<Rightarrow> Some (BadRequestException
            (''Field '' @ fd_name field @ '' is of type MASTER but masterType is not specified''))
        | Some masterType \<Rightarrow>
            if masterType = [] then Some (BadRequestException
              (''Field '' @ fd_name field @ '' is of type MASTER but masterType is not specified''))
            else if fd_relationshipType field = None then Some (BadRequestException
              (''Field '' @ fd_name field @ '' is of type MASTER but relationshipType is not specified''))
            else if findSchema st (toLowerCase masterType) = None then Some (BadRequestException
              (''Referenced master '' @ masterType @ '' does not exist''))
            else validateMasterFields st rest)
     else validateMasterFields st rest)"

definition validateSchema :: "state \<Rightarrow> CreateSchemaDto \<Rightarrow> error option" where
  "validateSchema st createSchemaDto =
    (if \<not> distinct (map fd_name (dto_fields createSchemaDto)) then
       Some (BadRequestException ''Field names must be unique'')
     else validateMasterFields st (dto_fields createSchemaDto))"

definition validateGroupId :: "state \<Rightarrow> string \<Rightarrow> error option" where
  "validateGroupId st groupId =
    (if groupId = [] then None
     else if groupId \<in> set (groups st) then None
     else Some (BadRequestException (''Invalid group ID: '' @ groupId @
       ''. This group ID does not exist in the groups collection.'')))"

definition updateSchemaCache :: "state \<Rightarrow> string \<Rightarrow> CreateSchemaDto \<Rightarrow> state" where
  \<comment> \<open>\<^verbatim>\<open>MasterService.updateSchemaCache\<close>, run by the listeners of \<^verbatim>\<open>schema.created\<close> and
      \<^verbatim>\<open>schema.updated\<close>; an exception inside the listener rejects its own promise only\<close>
  "updateSchemaCache st schemaName schema =
    (case MasterService_buildSchemaDefinition schema of
       Inl e \<Rightarrow> st
     | Inr schemaDefinition \<Rightarrow>
         st\<lparr>models := insert (toLowerCase schemaName) (models st),
            masterCache := (masterCache st)(toLowerCase schemaName \<mapsto>
              \<lparr>ce_schema = schema, ce_model = schemaDefinition\<rparr>)\<rparr>)"

definition createSchema :: "state \<Rightarrow> CreateSchemaDto \<Rightarrow> (error + string) \<times> state" where
  "createSchema st createSchemaDto =
    (let schemaName = toLowerCase (dto_name createSchemaDto) in
     if findSchema st schemaName \<noteq> None then
       (Inl (BadRequestException (''Schema '' @ schemaName @ '' already exists'')), st)
     else
       (case transformFields (dto_fields createSchemaDto) of
          Inl e \<Rightarrow> (Inl e, st)
        | Inr fields' \<Rightarrow>
            (let transformedSchema = createSchemaDto\<lparr>dto_fields := fields'\<rparr> in
             case validateSchema st transformedSchema of
               Some e \<Rightarrow> (Inl e, st)
             | None \<Rightarrow>
                 (case (case dto_groupId transformedSchema of
                          None \<Rightarrow> None
                        | Some groupId \<Rightarrow> validateGroupId st groupId) of
                    Some e \<Rightarrow> (Inl e, st)
                  | None \<Rightarrow>
                      (let st1 = st\<lparr>schemas := schemas st @ [transformedSchema]\<rparr> in
                       case SchemaService_buildSchemaDefinition transformedSchema of
                         Inl e \<Rightarrow> (Inl e, st1)
                       | Inr schemaDefinition \<Rightarrow>
                           (let st2 = st1\<lparr>models := insert schemaName (models st1),
                                  schemaCache := (schemaCache st1)(schemaName \<mapsto>
                                    \<lparr>ce_schema = transformedSchema, ce_model = schemaDefinition\<rparr>)\<rparr>;
                                st3 = updateSchemaCache st2 schemaName transformedSchema
                            in (Inr (''Schema '' @ schemaName @ '' created successfully''), st3)))))))"

definition getSchema :: "state \<Rightarrow> string \<Rightarrow> error + CreateSchemaDto" where
  "getSchema st schemaName =
    (case findSchema st (toLowerCase schemaName) of
       None \<Rightarrow> Inl (NotFoundException (''Schema '' @ schemaName @ '' does not exist''))
     | Some schema \<Rightarrow> Inr schema)"

definition referencingSchemas :: "state \<Rightarrow> string \<Rightarrow> CreateSchemaDto list" where
  \<comment> \<open>\<^verbatim>\<open>find({ 'schema.fields': { $elemMatch: { type: 'master', masterType: n } } })\<close>\<close>
  "referencingSchemas st n =
     filter (\<lambda>s. list_ex (\<lambda>f. fd_type f = MASTER \<and> fd_masterType f = Some n) (dto_fields s)) (schemas st)"

fun join :: "string \<Rightarrow> string list \<Rightarrow> string" where
  "join sep [] = []"
| "join sep [x] = x"
| "join sep (x # y # ys) = x @ sep @ join sep (y # ys)"

fun deleteOne :: "('a \<Rightarrow> bool) \<Rightarrow> 'a list \<Rightarrow> 'a list" where
  \<comment> \<open>\<^verbatim>\<open>deleteOne\<close> removes the first document that matches\<close>
  "deleteOne P [] = []"
| "deleteOne P (x # xs) = (if P x then xs else x # deleteOne P xs)"

definition deleteSchema :: "state \<Rightarrow> string \<Rightarrow> bool \<Rightarrow> (error + string) \<times> state" where
  "deleteSchema st schemaName force =
    (let schemaNameLower = toLowerCase schemaName in
     if findSchema st schemaNameLower = None then
       (Inl (NotFoundException (''Schema '' @ schemaName @ '' does not exist'')), st)
     else
       (let referencing = referencingSchemas st schemaNameLower in
        if referencing \<noteq> [] \<and> \<not> force then
          (Inl (BadRequestException
             (''Cannot delete schema '' @ schemaName @
              '' because it is referenced by other schemas: '' @
              join '', '' (map dto_name referencing) @ ''. Use force=true to delete anyway.'')), st)
        else
          (let st1 = st\<lparr>schemas := deleteOne (\<lambda>s. dto_name s = schemaNameLower) (schemas st),
                 models := models st - {schemaNameLower},
                 schemaCache := (schemaCache st)(schemaNameLower := None)\<rparr>;
               st2 = (if force then st1\<lparr>collections := (collections st1)(schemaNameLower := [])\<rparr>
                      else st1)
           in (Inr (''Schema '' @ schemaName @ '' deleted successfully''), st2))))"

text \<open>
  \<^verbatim>\<open>deleteSchema\<close> emits \<^verbatim>\<open>schema.deleted\<close>, for which \<^verbatim>\<open>MasterService.onModuleInit\<close>
  registers no listener: \<open>masterCache\<close> is left as it was. Its \<^verbatim>\<open>catch\<close> turns a failure
  of the store into \<^verbatim>\<open>InternalServerErrorException\<close>; the store of this model does not
  fail.
\<close>

section \<open>Writing and reading records\<close>

text \<open>
  \<^verbatim>\<open>new Model(data).save()\<close> completes the data with the defaults the schema definition
  states for the paths the data leaves out, and appends the document. The generated
  identifier and the clock are arguments. \<^verbatim>\<open>findOneAndUpdate\<close> with \<^verbatim>\<open>$set\<close> and
  \<^verbatim>\<open>{ new: true }\<close> overwrites the given keys of the first matching document and returns
  the document as updated. Mongoose's casting, its validators, its strict mode and the
  unique indexes are the library's and are not modelled: a value is written as given.
\<close>

fun defaultsFor :: "schemaDefinition \<Rightarrow> string \<Rightarrow> jsnum \<Rightarrow> document \<Rightarrow> document" where
  "defaultsFor [] newId now data = []"
| "defaultsFor ((k, pd) # rest) newId now data =
    (if has_key data k then defaultsFor rest newId now data
     else (case pd of
        Single opts \<Rightarrow>
          (case p_default opts of
             NoDefault \<Rightarrow> defaultsFor rest newId now data
           | NanoId \<Rightarrow> (k, Str newId) # defaultsFor rest newId now data
           | DateNow \<Rightarrow> (k, DateObj now) # defaultsFor rest newId now data
           | Const c \<Rightarrow> (k, c) # defaultsFor rest newId now data)
      | ArrayOf opts \<Rightarrow> defaultsFor rest newId now data))"

definition newDocument :: "schemaDefinition \<Rightarrow> string \<Rightarrow> jsnum \<Rightarrow> document \<Rightarrow> document" where
  "newDocument model newId now data = defaultsFor model newId now data @ data"

definition save :: "state \<Rightarrow> string \<Rightarrow> document \<Rightarrow> state" where
  "save st coll doc = st\<lparr>collections := (collections st)(coll := collections st coll @ [doc])\<rparr>"

definition setAll :: "document \<Rightarrow> document \<Rightarrow> document" where
  \<comment> \<open>\<^verbatim>\<open>{ $set: data }\<close> applied to a document\<close>
  "setAll data doc = fold (\<lambda>(k, w). AList.update k w) data doc"

fun findOneAndUpdate :: "string \<Rightarrow> jsval \<Rightarrow> document \<Rightarrow> document list \<Rightarrow> (document \<times> document list) option" where
  "findOneAndUpdate key v data [] = None"
| "findOneAndUpdate key v data (d # ds) =
    (if map_of d key = Some v then Some (setAll data d, setAll data d # ds)
     else (case findOneAndUpdate key v data ds of
        None \<Rightarrow> None
      | Some (updated, ds') \<Rightarrow> Some (updated, d # ds')))"

section \<open>Reference validation\<close>

fun checkIds :: "js_runtime \<Rightarrow> state \<Rightarrow> string \<Rightarrow> jsval list \<Rightarrow> error option" where
  \<comment> \<open>\<^verbatim>\<open>for (const id of masterId)\<close> of \<^verbatim>\<open>MasterService.validateMasterReferences\<close>\<close>
  "checkIds js st masterType [] = None"
| "checkIds js st masterType (refId # ids) =
    (if exists_in st masterType (masterType @ ''Id'') refId then checkIds js st masterType ids
     else Some (BadRequestException
       (''Invalid reference: '' @ ToString js refId @ '' does not exist in '' @ masterType)))"

fun MasterService_validateFields :: "js_runtime \<Rightarrow> state \<Rightarrow> FieldDefinition list \<Rightarrow> document \<Rightarrow> error option" where
  "MasterService_validateFields js st [] data = None"
| "MasterService_validateFields js st (field # rest) data =
    (if fd_type field = MASTER \<and> Boolean (getProp data (fd_name field)) then
       (case fd_masterType field of
          None \<Rightarrow> Some (TypeError ''Cannot read properties of undefined (reading toLowerCase)'')
        | Some mt \<Rightarrow>
            (let masterType = toLowerCase mt; masterId = getProp data (fd_name field) in
             if masterCache st (toLowerCase masterType) = None then
               Some (NotFoundException (''Schema '' @ masterType @ '' does not exist''))
             else
               (case (case masterId of
                        Arr ids \<Rightarrow> checkIds js st masterType ids
                      | _ \<Rightarrow> checkIds js st masterType [masterId]) of
                  Some e \<Rightarrow> Some e
                | None \<Rightarrow> MasterService_validateFields js st rest data)))
     else MasterService_validateFields js st rest data)"

definition MasterService_validateMasterReferences :: "js_runtime \<Rightarrow> state \<Rightarrow> string \<Rightarrow> document \<Rightarrow> error option" where
  "MasterService_validateMasterReferences js st schemaName data =
    (case masterCache st (toLowerCase schemaName) of
       None \<Rightarrow> Some (NotFoundException (''Schema '' @ schemaName @ '' not found in cache''))
     | Some cached \<Rightarrow> MasterService_validateFields js st (dto_fields (ce_schema cached)) data)"

text \<open>
  \<^verbatim>\<open>SchemaService.validateMasterReferences\<close> runs its loop to the end before it awaits
  anything: the loop throws for a required master field with a falsy value, and
  otherwise only collects one pending check per referenced id. \<^verbatim>\<open>Promise.all\<close> then
  rejects with the check that fails first; when several fail, the model reports the
  first in the order of the fields and ids. A check calls
  \<^verbatim>\<open>this.connection.models[masterType].exists\<close>, a \<^verbatim>\<open>TypeError\<close> when no model of that name
  is registered.
\<close>

fun collectChecks :: "FieldDefinition list \<Rightarrow> document \<Rightarrow> bool \<Rightarrow> error + (string \<times> jsval) list" where
  "collectChecks [] data isUpdate = Inr []"
| "collectChecks (field # rest) data isUpdate =
    (if isUpdate \<and> \<not> has_key data (fd_name field) then collectChecks rest data isUpdate
     else if fd_type field = MASTER then
       (case fd_masterType field of
          None \<Rightarrow> Inl (TypeError ''Cannot read properties of undefined (reading toLowerCase)'')
        | Some mt \<Rightarrow>
            (let masterType = toLowerCase mt; masterId = getProp data (fd_name field) in
             if fd_required field \<and> \<not> Boolean masterId then
               Inl (BadRequestException (''Field '' @ fd_name field @ '' is required''))
             else
               (case collectChecks rest data isUpdate of
                  Inl e \<Rightarrow> Inl e
                | Inr checks \<Rightarrow>
                    if Boolean masterId then
                      (case masterId of
                         Arr ids \<Rightarrow> Inr (map (\<lambda>refId. (masterType, refId)) ids @ checks)
                       | _ \<Rightarrow> Inr ((masterType, masterId) # checks))
                    else Inr checks)))
     else collectChecks rest data isUpdate)"

fun runChecks :: "js_runtime \<Rightarrow> state \<Rightarrow> (string \<times> jsval) list \<Rightarrow> error option" where
  "runChecks js st [] = None"
| "runChecks js st ((masterType, refId) # checks) =
    (if masterType \<notin> models st then
       Some (TypeError ''Cannot read properties of undefined (reading exists)'')
     else if exists_in st masterType (masterType @ ''Id'') refId then runChecks js st checks
     else Some (BadRequestException
       (''Invalid reference: '' @ ToString js refId @ '' does not exist in '' @ masterType)))"

definition SchemaService_validateMasterReferences ::
  "js_runtime \<Rightarrow> state \<Rightarrow> string \<Rightarrow> document \<Rightarrow> bool \<Rightarrow> error option" where
  "SchemaService_validateMasterReferences js st schemaName data isUpdate =
    (case findSchema st (toLowerCase schemaName) of
       None \<Rightarrow> Some (NotFoundException (''Schema '' @ schemaName @ '' does not exist''))
     | Some schema \<Rightarrow>
         (case collectChecks (dto_fields schema) data isUpdate of
            Inl e \<Rightarrow> Some e
          | Inr checks \<Rightarrow> runChecks js st checks))"

section \<open>The record operations\<close>

definition MasterService_createData ::
  "js_runtime \<Rightarrow> string \<Rightarrow> jsnum \<Rightarrow> state \<Rightarrow> string \<Rightarrow> document \<Rightarrow> (error + document) \<times> state" where
  "MasterService_createData js newId now st schemaName data =
    (case masterCache st (toLowerCase schemaName) of
       None \<Rightarrow> (Inl (NotFoundException (''Schema '' @ schemaName @ '' does not exist'')), st)
     | Some cached \<Rightarrow>
         (let idFieldName = toLowerCase schemaName @ ''Id'';
              data' = AList.delete idFieldName data in
          case convertFields js (dto_fields (ce_schema cached)) data' [] of
            Inl e \<Rightarrow> (Inl e, st)
          | Inr convertedData \<Rightarrow>
              (case MasterService_validateMasterReferences js st schemaName convertedData of
                 Some e \<Rightarrow> (Inl e, st)
               | None \<Rightarrow>
                   (let instance = newDocument (ce_model cached) newId now convertedData
                    in (Inr instance, save st (toLowerCase schemaName) instance)))))"

definition SchemaService_createData ::
  "js_runtime \<Rightarrow> string \<Rightarrow> jsnum \<Rightarrow> state \<Rightarrow> string \<Rightarrow> document \<Rightarrow> (error + document) \<times> state" where
  "SchemaService_createData js newId now st schemaName data =
    (case schemaCache st (toLowerCase schemaName) of
       None \<Rightarrow> (Inl (NotFoundException (''Schema '' @ schemaName @ '' does not exist'')), st)
     | Some cached \<Rightarrow>
         (let idFieldName = toLowerCase schemaName @ ''Id'';
              data' = AList.delete idFieldName data in
          case convertFields js (dto_fields (ce_schema cached)) data' [] of
            Inl e \<Rightarrow> (Inl e, st)
          | Inr convertedData \<Rightarrow>
              (case SchemaService_validateMasterReferences js st schemaName convertedData False of
                 Some e \<Rightarrow> (Inl e, st)
               | None \<Rightarrow>
                   (let instance = newDocument (ce_model cached) newId now convertedData
                    in (Inr instance, save st (toLowerCase schemaName) instance)))))"

definition MasterService_update ::
  "state \<Rightarrow> string \<Rightarrow> string \<Rightarrow> document \<Rightarrow> (error + document) \<times> state" where
  "MasterService_update st schemaName recId data =
    (case masterCache st (toLowerCase schemaName) of
       None \<Rightarrow> (Inl (NotFoundException (''Schema '' @ schemaName @ '' does not exist'')), st)
     | Some cached \<Rightarrow>
         (case findOneAndUpdate (toLowerCase schemaName @ ''Id'') (Str recId) data
                 (collections st (toLowerCase schemaName)) of
            None \<Rightarrow> (Inl (NotFoundException (''Data with ID '' @ recId @ '' not found'')), st)
          | Some (updated, docs) \<Rightarrow>
              (Inr updated, st\<lparr>collections := (collections st)(toLowerCase schemaName := docs)\<rparr>)))"

definition SchemaService_update ::
  "js_runtime \<Rightarrow> state \<Rightarrow> string \<Rightarrow> string \<Rightarrow> document \<Rightarrow> (error + document option) \<times> state" where
  \<comment> \<open>the result \<open>None\<close> is the \<^verbatim>\<open>null\<close> that \<^verbatim>\<open>findOneAndUpdate\<close> returns when nothing matches\<close>
  "SchemaService_update js st schemaName recId data =
    (case schemaCache st (toLowerCase schemaName) of
       None \<Rightarrow> (Inl (NotFoundException (''Schema '' @ schemaName @ '' does not exist'')), st)
     | Some cached \<Rightarrow>
         (let idFieldName = toLowerCase schemaName @ ''Id'' in
          if \<not> exists_in st (toLowerCase schemaName) idFieldName (Str recId) then
            (Inl (NotFoundException (''Record not found in '' @ schemaName)), st)
          else
            (let data' = AList.delete idFieldName data in
             case SchemaService_validateMasterReferences js st schemaName data' True of
               Some e \<Rightarrow> (Inl e, st)
             | None \<Rightarrow>
                 (case findOneAndUpdate idFieldName (Str recId) data'
                         (collections st (toLowerCase schemaName)) of
                    None \<Rightarrow> (Inr None, st)
                  | Some (updated, docs) \<Rightarrow>
                      (Inr (Some updated),
                       st\<lparr>collections := (collections st)(toLowerCase schemaName := docs)\<rparr>)))))"

section \<open>Listing records\<close>

text \<open>
  \<^verbatim>\<open>findAll\<close> builds a query object and hands it to the store. The query has at most one
  clause the service writes itself, under the key \<^verbatim>\<open>$or\<close>: one
  \<^verbatim>\<open>{ [field]: { $regex: search, $options: 'i' } }\<close> per searched field. \<^verbatim>\<open>Object.assign\<close>
  then copies every key of \<^verbatim>\<open>filters\<close> over it. How the store evaluates a regular
  expression, a filter entry and the order of two values is the store's: the three are
  parameters. The query is evaluated as it was built (mongoose sends it unchanged unless
  its \<^verbatim>\<open>strictQuery\<close> option is switched on); a field the document does not have matches
  no regular expression. Page and limit are integers.
\<close>

datatype clause = SearchOr "string list" string | Filter jsval

type_synonym query = "(string \<times> clause) list"

record store_semantics =
  regex_test :: "string \<Rightarrow> string \<Rightarrow> bool"
  filter_match :: "string \<Rightarrow> jsval \<Rightarrow> document \<Rightarrow> bool"
  sort_rank :: "jsval \<Rightarrow> real"

fun regex_value :: "store_semantics \<Rightarrow> string \<Rightarrow> jsval \<Rightarrow> bool" where
  \<comment> \<open>\<^verbatim>\<open>$regex\<close> matches a string, or an array with a matching string\<close>
  "regex_value sem pat (Str s) = regex_test sem pat s"
| "regex_value sem pat (Arr xs) =
     list_ex (\<lambda>x. case x of Str s \<Rightarrow> regex_test sem pat s | _ \<Rightarrow> False) xs"
| "regex_value sem pat _ = False"

fun clause_matches :: "store_semantics \<Rightarrow> document \<Rightarrow> string \<times> clause \<Rightarrow> bool" where
  "clause_matches sem d (k, SearchOr searchFields pat) =
     list_ex (\<lambda>f. regex_value sem pat (getProp d f)) searchFields"
| "clause_matches sem d (k, Filter v) = filter_match sem k v d"

definition matches :: "store_semantics \<Rightarrow> query \<Rightarrow> document \<Rightarrow> bool" where
  "matches sem q d = list_all (clause_matches sem d) q"

definition assignFilters :: "query \<Rightarrow> document \<Rightarrow> query" where
  \<comment> \<open>\<^verbatim>\<open>Object.assign(query, filters)\<close>\<close>
  "assignFilters q filters' = fold (\<lambda>(k, v). AList.update k (Filter v)) filters' q"

definition buildQuery :: "string list \<Rightarrow> string option \<Rightarrow> document option \<Rightarrow> query" where
  "buildQuery searchFields search filters' =
    (let q0 = [];
         q1 = (case search of
                 None \<Rightarrow> q0
               | Some term' \<Rightarrow> if term' = [] then q0
                   else AList.update ''$or'' (SearchOr searchFields term') q0)
     in case filters' of None \<Rightarrow> q1 | Some fs \<Rightarrow> assignFilters q1 fs)"

definition sortBy :: "store_semantics \<Rightarrow> string \<Rightarrow> string \<Rightarrow> document list \<Rightarrow> document list" where
  \<comment> \<open>\<^verbatim>\<open>.sort({ [sort]: order === 'desc' ? -1 : 1 })\<close>\<close>
  "sortBy sem sortField ord ds =
    (if ord = ''desc'' then rev (sort_key (\<lambda>d. sort_rank sem (getProp d sortField)) ds)
     else sort_key (\<lambda>d. sort_rank sem (getProp d sortField)) ds)"

definition runFind ::
  "store_semantics \<Rightarrow> document list \<Rightarrow> query \<Rightarrow> string \<Rightarrow> string \<Rightarrow> int \<Rightarrow> int \<Rightarrow> error + document list" where
  \<comment> \<open>\<^verbatim>\<open>Model.find(query).sort(..).skip(n).limit(m)\<close>: the store refuses a negative skip, and
      a limit of 0 is no limit\<close>
  "runFind sem docs q sortField ord skip' limit' =
    (if skip' < 0 then Inl (MongoError ''Skip value must be non-negative'')
     else
       (let skipped = drop (nat skip') (sortBy sem sortField ord (filter (matches sem q) docs))
        in Inr (if limit' = 0 then skipped else take (nat \<bar>limit'\<bar>) skipped)))"

definition countDocuments :: "store_semantics \<Rightarrow> document list \<Rightarrow> query \<Rightarrow> nat" where
  "countDocuments sem docs q = length (filter (matches sem q) docs)"

definition Math_ceil_div :: "nat \<Rightarrow> int \<Rightarrow> jsnum" where
  \<comment> \<open>\<^verbatim>\<open>Math.ceil(total / limit)\<close>\<close>
  "Math_ceil_div total' limit' =
    (if limit' = 0 then (if total' = 0 then NaN else PosInfinity)
     else Finite (of_int \<lceil>real total' / real_of_int limit'\<rceil>))"

record FindAllOptions =
  o_page :: "int option"
  o_limit :: "int option"
  o_sort :: "string option"
  o_order :: "string option"
  o_search :: "string option"
  o_filters :: "document option"

record page_meta =
  r_total :: nat
  r_page :: int
  r_limit :: int
  r_totalPages :: jsnum

record MasterService_page = page_meta +
  r_data :: "document list"

record SchemaService_page =
  s_data :: "document list"
  s_meta :: page_meta

definition MasterService_findAll ::
  "store_semantics \<Rightarrow> state \<Rightarrow> string \<Rightarrow> FindAllOptions \<Rightarrow> error + MasterService_page" where
  "MasterService_findAll sem st schemaName options =
    (case masterCache st (toLowerCase schemaName) of
       None \<Rightarrow> Inl (NotFoundException (''Schema '' @ schemaName @ '' does not exist''))
     | Some cached \<Rightarrow>
         (let page' = (case o_page options of None \<Rightarrow> 1 | Some p \<Rightarrow> p);
              limit' = (case o_limit options of None \<Rightarrow> 10 | Some l \<Rightarrow> l);
              sort' = (case o_sort options of None \<Rightarrow> ''createdAt'' | Some s \<Rightarrow> s);
              order' = (case o_order options of None \<Rightarrow> ''desc'' | Some ord \<Rightarrow> ord);
              q = buildQuery [''name'', ''description''] (o_search options) (o_filters options);
              docs = collections st (toLowerCase schemaName)
          in case runFind sem docs q sort' order' ((page' - 1) * limit') limit' of
               Inl e \<Rightarrow> Inl e
             | Inr found \<Rightarrow>
                 (let total' = countDocuments sem docs q
                  in Inr \<lparr>r_total = total', r_page = page', r_limit = limit',
                       r_totalPages = Math_ceil_div total' limit', r_data = found\<rparr>)))"

definition stringPaths :: "schemaDefinition \<Rightarrow> string list" where
  \<comment> \<open>\<^verbatim>\<open>Object.keys(Model.schema.paths).filter(path => paths[path].instance === 'String')\<close>;
      the paths mongoose adds, \<^verbatim>\<open>_id\<close> and \<^verbatim>\<open>__v\<close>, are not strings\<close>
  "stringPaths model =
     map fst (filter (\<lambda>(k, pd). case pd of Single opts \<Rightarrow> p_type opts = TString | ArrayOf opts \<Rightarrow> False) model)"

definition SchemaService_findAll ::
  "store_semantics \<Rightarrow> state \<Rightarrow> string \<Rightarrow> FindAllOptions \<Rightarrow> error + SchemaService_page" where
  "SchemaService_findAll sem st schemaName options =
    (case schemaCache st (toLowerCase schemaName) of
       None \<Rightarrow> Inl (NotFoundException (''Schema '' @ schemaName @ '' does not exist''))
     | Some cached \<Rightarrow>
         (let page' = (case o_page options of None \<Rightarrow> 1 | Some p \<Rightarrow> p);
              limit' = (case o_limit options of None \<Rightarrow> 10 | Some l \<Rightarrow> l);
              sort' = (case o_sort options of None \<Rightarrow> ''createdAt'' | Some s \<Rightarrow> s);
              order' = (case o_order options of None \<Rightarrow> ''desc'' | Some ord \<Rightarrow> ord);
              q = buildQuery (stringPaths (ce_model cached)) (o_search options) (o_filters options);
              docs = collections st (toLowerCase schemaName)
          in case runFind sem docs q sort' order' ((page' - 1) * limit') limit' of
               Inl e \<Rightarrow> Inl e
             | Inr found \<Rightarrow>
                 (let total' = countDocuments sem docs q
                  in Inr \<lparr>s_data = found,
                       s_meta = \<lparr>r_total = total', r_page = page', r_limit = limit',
                         r_totalPages = Math_ceil_div total' limit'\<rparr>\<rparr>)))"

section \<open>Example data\<close>

text \<open>
  The schemas of the specification's example, \<^verbatim>\<open>city { cityName: string required }\<close> and
  \<^verbatim>\<open>store { name: string required, cityRef: master -> city required }\<close>, and the fields,
  registries and records the concrete statements below are evaluated at.
\<close>

definition ageField :: FieldDefinition where
  "ageField = \<lparr>fd_name = ''age'', fd_type = NUMBER, fd_required = True, fd_unique = False,
     fd_defaultValue = Undefined, fd_masterType = None, fd_relationshipType = None\<rparr>"

definition activeField :: FieldDefinition where
  "activeField = \<lparr>fd_name = ''active'', fd_type = BOOLEAN, fd_required = False, fd_unique = False,
     fd_defaultValue = Undefined, fd_masterType = None, fd_relationshipType = None\<rparr>"

definition cityNameField :: FieldDefinition where
  "cityNameField = \<lparr>fd_name = ''cityName'', fd_type = STRING, fd_required = True, fd_unique = False,
     fd_defaultValue = Undefined, fd_masterType = None, fd_relationshipType = None\<rparr>"

definition nameField :: FieldDefinition where
  "nameField = \<lparr>fd_name = ''name'', fd_type = STRING, fd_required = True, fd_unique = False,
     fd_defaultValue = Undefined, fd_masterType = None, fd_relationshipType = None\<rparr>"

definition cityRef :: "string \<Rightarrow> RelationshipType \<Rightarrow> FieldDefinition" where
  "cityRef masterType rel = \<lparr>fd_name = ''cityRef'', fd_type = MASTER, fd_required = True,
     fd_unique = False, fd_defaultValue = Undefined, fd_masterType = Some masterType,
     fd_relationshipType = Some rel\<rparr>"

definition citySchema :: CreateSchemaDto where
  "citySchema = \<lparr>dto_name = ''city'', dto_displayName = ''City'', dto_fields = [cityNameField],
     dto_groupId = None\<rparr>"

definition upperCitySchema :: CreateSchemaDto where
  "upperCitySchema = \<lparr>dto_name = ''City'', dto_displayName = ''City'', dto_fields = [],
     dto_groupId = None\<rparr>"

definition personSchema :: CreateSchemaDto where
  "personSchema = \<lparr>dto_name = ''person'', dto_displayName = ''Person'', dto_fields = [ageField],
     dto_groupId = None\<rparr>"

definition storeSchema :: "string \<Rightarrow> RelationshipType \<Rightarrow> CreateSchemaDto" where
  "storeSchema masterType rel = \<lparr>dto_name = ''store'', dto_displayName = ''Store'',
     dto_fields = [nameField, cityRef masterType rel], dto_groupId = None\<rparr>"

definition storedStoreSchema :: CreateSchemaDto where
  \<comment> \<open>the store schema as \<^verbatim>\<open>createSchema\<close> persists it\<close>
  "storedStoreSchema = (storeSchema ''city'' ONE_TO_ONE)
     \<lparr>dto_fields := [nameField, (cityRef ''city'' ONE_TO_ONE)\<lparr>fd_name := ''cityId''\<rparr>]\<rparr>"

definition emptyState :: state where
  "emptyState = \<lparr>schemas = [], groups = [], collections = (\<lambda>_. []), models = {},
     schemaCache = Map.empty, masterCache = Map.empty\<rparr>"

definition cityRegistered :: state where
  "cityRegistered = snd (createSchema emptyState citySchema)"

definition personRegistered :: state where
  "personRegistered = snd (createSchema emptyState personSchema)"

definition mixedCaseRegistry :: state where
  \<comment> \<open>\<^verbatim>\<open>City\<close>, then \<^verbatim>\<open>city\<close>, then a store whose master field names \<^verbatim>\<open>City\<close>\<close>
  "mixedCaseRegistry =
     snd (createSchema (snd (createSchema (snd (createSchema emptyState upperCitySchema)) citySchema))
            (storeSchema ''City'' ONE_TO_ONE))"

definition cityModel :: schemaDefinition where
  "cityModel = systemFields ''city'' @ [(''cityName'', plainField cityNameField)]"

definition storeModel :: schemaDefinition where
  "storeModel = systemFields ''store'' @ [(''name'', plainField nameField),
     (''cityId'', Single \<lparr>p_type = TString, p_required = True, p_unique = False,
        p_default = NoDefault, p_ref = Some ''city''\<rparr>)]"

definition cityDoc :: document where
  "cityDoc = [(''cityId'', Str ''c1''), (''createdAt'', DateObj (Finite 0)),
     (''updatedAt'', DateObj (Finite 0)), (''isActive'', Bool True), (''isDeleted'', Bool False),
     (''cityName'', Str ''Pune'')]"

definition storeDoc :: document where
  "storeDoc = [(''storeId'', Str ''s1''), (''createdAt'', DateObj (Finite 0)),
     (''updatedAt'', DateObj (Finite 0)), (''isActive'', Bool True), (''isDeleted'', Bool False),
     (''name'', Str ''S1''), (''cityId'', Str ''c1'')]"

definition shopState :: state where
  \<comment> \<open>both schemas registered, one city and one store in it\<close>
  "shopState = \<lparr>schemas = [citySchema, storedStoreSchema], groups = [],
     collections = (\<lambda>_. [])(''city'' := [cityDoc], ''store'' := [storeDoc]),
     models = {''city'', ''store''},
     schemaCache = [''city'' \<mapsto> \<lparr>ce_schema = citySchema, ce_model = cityModel\<rparr>,
                    ''store'' \<mapsto> \<lparr>ce_schema = storedStoreSchema, ce_model = storeModel\<rparr>],
     masterCache = [''city'' \<mapsto> \<lparr>ce_schema = citySchema, ce_model = cityModel\<rparr>,
                    ''store'' \<mapsto> \<lparr>ce_schema = storedStoreSchema, ce_model = storeModel\<rparr>]\<rparr>"

definition tamperedStoreDoc :: document where
  "tamperedStoreDoc = [(''storeId'', Str ''s2''), (''createdAt'', DateObj (Finite 0)),
     (''updatedAt'', DateObj (Finite 0)), (''isActive'', Bool True), (''isDeleted'', Bool False),
     (''name'', Str ''S1''), (''cityId'', Str ''nowhere'')]"

definition twentyFiveCities :: "document list" where
  \<comment> \<open>25 cities with the identifiers \<^verbatim>\<open>av\<close> .. \<^verbatim>\<open>ez\<close>, created at the times 0 .. 24\<close>
  "twentyFiveCities =
     map (\<lambda>(n, i). [(''cityId'', Str i), (''createdAt'', DateObj (Finite (real n))),
                      (''cityName'', Str ''Pune'')])
       (enumerate 0 (concat (map (\<lambda>a. map (\<lambda>b. [a, b]) ''vwxyz'') ''abcde'')))"

definition pagedState :: state where
  "pagedState = shopState\<lparr>collections := (collections shopState)(''city'' := twentyFiveCities)\<rparr>"

definition thirdPage :: FindAllOptions where
  "thirdPage = \<lparr>o_page = Some 3, o_limit = Some 10, o_sort = None, o_order = None,
     o_search = None, o_filters = None\<rparr>"

definition zeroLimit :: FindAllOptions where
  "zeroLimit = \<lparr>o_page = Some 1, o_limit = Some 0, o_sort = None, o_order = None,
     o_search = None, o_filters = None\<rparr>"

definition pageZero :: FindAllOptions where
  "pageZero = \<lparr>o_page = Some 0, o_limit = Some 10, o_sort = None, o_order = None,
     o_search = None, o_filters = None\<rparr>"

definition timeOrder :: store_semantics where
  \<comment> \<open>a store that orders dates and numbers by their value\<close>
  "timeOrder = \<lparr>regex_test = (\<lambda>pat s. False), filter_match = (\<lambda>k v d. getProp d k = v),
     sort_rank = (\<lambda>v. case v of DateObj (Finite t) \<Rightarrow> t | Num (Finite x) \<Rightarrow> x | _ \<Rightarrow> 0)\<rparr>"

definition personDoc :: document where
  "personDoc = [(''personId'', Str ''p1''), (''createdAt'', DateObj (Finite 0)),
     (''updatedAt'', DateObj (Finite 0)), (''isActive'', Bool True), (''isDeleted'', Bool False),
     (''age'', Num (Finite 0))]"

definition searchPune :: FindAllOptions where
  "searchPune = \<lparr>o_page = None, o_limit = None, o_sort = None, o_order = None,
     o_search = Some ''Pune'', o_filters = None\<rparr>"

lemmas example_defs =
  ageField_def activeField_def cityNameField_def nameField_def cityRef_def citySchema_def
  upperCitySchema_def personSchema_def storeSchema_def storedStoreSchema_def emptyState_def
  cityRegistered_def personRegistered_def mixedCaseRegistry_def cityModel_def storeModel_def
  cityDoc_def storeDoc_def shopState_def tamperedStoreDoc_def

lemmas registry_defs =
  createSchema_def findSchema_def toLowerCase_def validateSchema_def validateGroupId_def
  SchemaService_buildSchemaDefinition_def MasterService_buildSchemaDefinition_def
  updateSchemaCache_def getSchema_def deleteSchema_def referencingSchemas_def systemFields_def
  plainField_def getMongooseType_def Let_def

lemmas record_defs =
  MasterService_createData_def SchemaService_createData_def MasterService_update_def
  SchemaService_update_def MasterService_validateMasterReferences_def
  SchemaService_validateMasterReferences_def convertField_def getProp_def has_key_def
  exists_in_def newDocument_def save_def setAll_def

section \<open>Properties of the coercion\<close>

lemma toLowerCase_char_idem: "toLowerCase_char (toLowerCase_char c) = toLowerCase_char c"
  by (cases c) (auto simp: Let_def)

lemma toLowerCase_idem: "toLowerCase (toLowerCase s) = toLowerCase s"
  by (simp add: toLowerCase_def toLowerCase_char_idem)

text \<open>
  Claim C8. Coercion is idempotent: whatever field definition and raw value the coercion
  accepts with a stored value \<open>w\<close>, coercing \<open>w\<close> again under the same field definition
  is accepted too and stores \<open>w\<close> unchanged. This covers every field type: a coerced
  number, boolean, date, array, object, string or master reference.
\<close>

theorem coercion_idempotent:
  assumes "convertField js field v = Inr (Some w)"
  shows "convertField js field w = Inr (Some w)"
proof (cases "fd_type field")
  case BOOLEAN
  with assms show ?thesis
    by (cases v) (auto simp: convertField_def split: if_splits)
next
  case NUMBER
  with assms show ?thesis
    by (auto simp: convertField_def Let_def split: if_splits)
next
  case DATE
  with assms show ?thesis
    by (auto simp: convertField_def Let_def split: if_splits)
qed (use assms in \<open>auto simp: convertField_def split: if_splits\<close>)

text \<open>
  The text \<^verbatim>\<open>"TRUE"\<close> given for a boolean field is stored as \<^verbatim>\<open>true\<close>, and \<^verbatim>\<open>true\<close> is
  stored as \<^verbatim>\<open>true\<close> again, in every runtime.
\<close>

theorem coercion_idempotent_witness:
  "\<forall>js. convertField js activeField (Str ''TRUE'') = Inr (Some (Bool True)) \<and>
        convertField js activeField (Bool True) = Inr (Some (Bool True))"
proof
  fix js
  have first: "convertField js activeField (Str ''TRUE'') = Inr (Some (Bool True))"
    by (simp add: convertField_def activeField_def toLowerCase_def)
  from coercion_idempotent [OF first] first
  show "convertField js activeField (Str ''TRUE'') = Inr (Some (Bool True)) \<and>
        convertField js activeField (Bool True) = Inr (Some (Bool True))"
    by simp
qed




subsection \<open>What the loop writes\<close>

lemma convertFields_other_keys:
  "convertFields js fs data acc = Inr cd \<Longrightarrow> k \<notin> fd_name ` set fs \<Longrightarrow> map_of cd k = map_of acc k"
proof (induction fs arbitrary: acc)
  case Nil
  then show ?case by simp
next
  case (Cons f fs)
  then show ?case
    by (auto simp: update_conv' split: sum.splits option.splits)
qed

lemma convertFields_writes:
  assumes "convertFields js fs data acc = Inr cd"
    and "f \<in> set fs" and "distinct (map fd_name fs)"
    and "convertField js f (getProp data (fd_name f)) = Inr (Some w)"
  shows "map_of cd (fd_name f) = Some w"
  using assms
proof (induction fs arbitrary: acc)
  case Nil
  then show ?case by simp
next
  case (Cons g fs)
  show ?case
  proof (cases "f = g")
    case True
    with Cons.prems have rest: "convertFields js fs data (AList.update (fd_name f) w acc) = Inr cd"
      and fresh: "fd_name f \<notin> fd_name ` set fs"
      by auto
    from convertFields_other_keys [OF rest fresh] show ?thesis
      by (simp add: update_conv')
  next
    case False
    with Cons.prems have "f \<in> set fs" "distinct (map fd_name fs)" by auto
    moreover from Cons.prems(1) obtain acc' where "convertFields js fs data acc' = Inr cd"
      by (auto split: sum.splits option.splits)
    ultimately show ?thesis
      using Cons.IH Cons.prems(4) by blast
  qed
qed

lemma defaultsFor_skips_given:
  "has_key data k \<Longrightarrow> map_of (defaultsFor model newId now data) k = None"
  by (induction model newId now data rule: defaultsFor.induct)
     (auto split: PathDef.splits DefaultValue.splits)

lemma newDocument_keeps:
  "map_of data k = Some w \<Longrightarrow> getProp (newDocument model newId now data) k = w"
  by (simp add: newDocument_def getProp_def map_add_def defaultsFor_skips_given has_key_def)

lemma getProp_delete: "k \<noteq> k' \<Longrightarrow> getProp (AList.delete k' d) k = getProp d k"
  by (simp add: getProp_def delete_conv')

lemma null_is_not_absent:
  assumes "fd_type field \<noteq> MASTER"
  shows "convertField js field Null \<noteq>
    Inl (BadRequestException (''Field '' @ fd_name field @ '' is required''))"
  using assms by (cases "fd_type field") (auto simp: convertField_def Let_def)

lemma null_number_is_zero:
  "fd_type field = NUMBER \<Longrightarrow> convertField js field Null = Inr (Some (Num (Finite 0)))"
  by (simp add: convertField_def)

lemma required_error_iff_undefined:
  assumes "fd_required field"
  shows "convertField js field v =
           Inl (BadRequestException (''Field '' @ fd_name field @ '' is required''))
         \<longleftrightarrow> v = Undefined"
proof (cases "fd_type field")
  case BOOLEAN
  with assms show ?thesis
    by (cases v) (auto simp: convertField_def)
qed (use assms in \<open>auto simp: convertField_def Let_def\<close>)

lemma convertFields_cong:
  "(\<And>f. f \<in> set fs \<Longrightarrow>
      convertField js f (getProp d1 (fd_name f)) = convertField js f (getProp d2 (fd_name f))) \<Longrightarrow>
   convertFields js fs d1 acc = convertFields js fs d2 acc"
  by (induction fs arbitrary: acc) (auto split: sum.splits option.splits)

lemma same_name_same_field:
  "distinct (map fd_name fs) \<Longrightarrow> f \<in> set fs \<Longrightarrow> g \<in> set fs \<Longrightarrow> fd_name f = fd_name g \<Longrightarrow> f = g"
  by (meson distinct_map inj_onD)

lemma getProp_delete_update:
  "k \<noteq> n \<Longrightarrow> getProp (AList.delete i (AList.update n w d)) k = getProp (AList.delete i d) k"
  by (simp add: getProp_def delete_conv' update_conv')

lemma getProp_delete_update_same:
  "n \<noteq> i \<Longrightarrow> getProp (AList.delete i (AList.update n w d)) n = w"
  by (simp add: getProp_def delete_conv' update_conv')

lemma null_converts_like_zero:
  assumes number: "fd_type field = NUMBER"
    and field: "field \<in> set fs" and distinct: "distinct (map fd_name fs)"
    and name: "fd_name field \<noteq> i"
    and null: "getProp data (fd_name field) = Null"
  shows "convertFields js fs (AList.delete i data) acc =
         convertFields js fs (AList.delete i (AList.update (fd_name field) (Num (Finite 0)) data)) acc"
proof (rule convertFields_cong)
  fix f assume f: "f \<in> set fs"
  show "convertField js f (getProp (AList.delete i data) (fd_name f)) =
        convertField js f (getProp (AList.delete i (AList.update (fd_name field) (Num (Finite 0)) data)) (fd_name f))"
  proof (cases "fd_name f = fd_name field")
    case True
    with same_name_same_field [OF distinct f field] have "f = field" by simp
    moreover from name null have "getProp (AList.delete i data) (fd_name field) = Null"
      by (simp add: getProp_def delete_conv')
    ultimately show ?thesis
      using number name by (simp add: getProp_delete_update_same convertField_def)
  next
    case False
    then show ?thesis by (simp add: getProp_delete_update)
  qed
qed

lemma MasterService_createData_null_like_zero:
  assumes "fd_type field = NUMBER"
    and "masterCache st (toLowerCase schemaName) = Some cached"
    and "field \<in> set (dto_fields (ce_schema cached))"
    and "distinct (map fd_name (dto_fields (ce_schema cached)))"
    and "fd_name field \<noteq> toLowerCase schemaName @ ''Id''"
    and "getProp data (fd_name field) = Null"
  shows "MasterService_createData js newId now st schemaName data =
         MasterService_createData js newId now st schemaName
           (AList.update (fd_name field) (Num (Finite 0)) data)"
  using assms null_converts_like_zero [OF assms(1,3,4,5,6), of js "[]"]
  by (simp add: MasterService_createData_def Let_def)

lemma SchemaService_createData_null_like_zero:
  assumes "fd_type field = NUMBER"
    and "schemaCache st (toLowerCase schemaName) = Some cached"
    and "field \<in> set (dto_fields (ce_schema cached))"
    and "distinct (map fd_name (dto_fields (ce_schema cached)))"
    and "fd_name field \<noteq> toLowerCase schemaName @ ''Id''"
    and "getProp data (fd_name field) = Null"
  shows "SchemaService_createData js newId now st schemaName data =
         SchemaService_createData js newId now st schemaName
           (AList.update (fd_name field) (Num (Finite 0)) data)"
  using assms null_converts_like_zero [OF assms(1,3,4,5,6), of js "[]"]
  by (simp add: SchemaService_createData_def Let_def)

lemma MasterService_createData_single_field:
  assumes "fd_type field = NUMBER"
    and "masterCache st (toLowerCase schemaName) = Some cached"
    and "dto_fields (ce_schema cached) = [field]"
    and "fd_name field \<noteq> toLowerCase schemaName @ ''Id''"
    and "getProp data (fd_name field) = Null"
  shows "MasterService_createData js newId now st schemaName data =
     (Inr (newDocument (ce_model cached) newId now [(fd_name field, Num (Finite 0))]),
      save st (toLowerCase schemaName)
        (newDocument (ce_model cached) newId now [(fd_name field, Num (Finite 0))]))"
  using assms
  by (simp add: MasterService_createData_def MasterService_validateMasterReferences_def Let_def
      getProp_delete null_number_is_zero)

lemma SchemaService_createData_single_field:
  assumes "fd_type field = NUMBER"
    and "schemaCache st (toLowerCase schemaName) = Some cached"
    and "findSchema st (toLowerCase schemaName) = Some (ce_schema cached)"
    and "dto_fields (ce_schema cached) = [field]"
    and "fd_name field \<noteq> toLowerCase schemaName @ ''Id''"
    and "getProp data (fd_name field) = Null"
  shows "SchemaService_createData js newId now st schemaName data =
     (Inr (newDocument (ce_model cached) newId now [(fd_name field, Num (Finite 0))]),
      save st (toLowerCase schemaName)
        (newDocument (ce_model cached) newId now [(fd_name field, Num (Finite 0))]))"
  using assms
  by (simp add: SchemaService_createData_def SchemaService_validateMasterReferences_def Let_def
      getProp_delete null_number_is_zero)

text \<open>
  Claim C10. The required-field check of \<^verbatim>\<open>createData\<close> treats only \<^verbatim>\<open>undefined\<close> as
  absent: for a required field that is not a master, the coercion raises
  \<^verbatim>\<open>Field <name> is required\<close> for the value \<^verbatim>\<open>undefined\<close> and for no other value, so not
  for \<^verbatim>\<open>null\<close>. When the field is a number, \<^verbatim>\<open>null\<close> is coerced to 0 and stored rather than
  rejected, in both services: a schema with this one field accepts the record and
  appends it with 0 in the field; in any schema with distinct field names \<^verbatim>\<open>createData\<close>
  does exactly what it does when the payload carries 0 instead of \<^verbatim>\<open>null\<close>, and the record
  it appends holds 0 in the field.
\<close>

theorem required_null_is_coerced_not_rejected:
  assumes required: "fd_required field" and plain: "fd_type field \<noteq> MASTER"
  shows "(convertField js field v =
            Inl (BadRequestException (''Field '' @ fd_name field @ '' is required''))
          \<longleftrightarrow> v = Undefined)
       \<and> convertField js field Null \<noteq>
           Inl (BadRequestException (''Field '' @ fd_name field @ '' is required''))
       \<and> (fd_type field = NUMBER \<longrightarrow>
            convertField js field Null = Inr (Some (Num (Finite 0))))
       \<and> (fd_type field = NUMBER \<and>
          fd_name field \<noteq> toLowerCase schemaName @ ''Id'' \<and>
          getProp data (fd_name field) = Null \<longrightarrow>
            (masterCache st (toLowerCase schemaName) = Some cached \<and>
             dto_fields (ce_schema cached) = [field] \<longrightarrow>
               MasterService_createData js newId now st schemaName data =
                 (Inr (newDocument (ce_model cached) newId now [(fd_name field, Num (Finite 0))]),
                  save st (toLowerCase schemaName)
                    (newDocument (ce_model cached) newId now [(fd_name field, Num (Finite 0))])))
          \<and> (schemaCache st (toLowerCase schemaName) = Some cached \<and>
             findSchema st (toLowerCase schemaName) = Some (ce_schema cached) \<and>
             dto_fields (ce_schema cached) = [field] \<longrightarrow>
               SchemaService_createData js newId now st schemaName data =
                 (Inr (newDocument (ce_model cached) newId now [(fd_name field, Num (Finite 0))]),
                  save st (toLowerCase schemaName)
                    (newDocument (ce_model cached) newId now [(fd_name field, Num (Finite 0))])))
          \<and> (masterCache st (toLowerCase schemaName) = Some cached \<and>
             field \<in> set (dto_fields (ce_schema cached)) \<and>
             distinct (map fd_name (dto_fields (ce_schema cached))) \<longrightarrow>
               MasterService_createData js newId now st schemaName data =
                 MasterService_createData js newId now st schemaName
                   (AList.update (fd_name field) (Num (Finite 0)) data)
             \<and> (MasterService_createData js newId now st schemaName data = (Inr doc, st') \<longrightarrow>
                  getProp doc (fd_name field) = Num (Finite 0) \<and>
                  collections st' (toLowerCase schemaName) =
                    collections st (toLowerCase schemaName) @ [doc]))
          \<and> (schemaCache st (toLowerCase schemaName) = Some cached \<and>
             field \<in> set (dto_fields (ce_schema cached)) \<and>
             distinct (map fd_name (dto_fields (ce_schema cached))) \<longrightarrow>
               SchemaService_createData js newId now st schemaName data =
                 SchemaService_createData js newId now st schemaName
                   (AList.update (fd_name field) (Num (Finite 0)) data)
             \<and> (SchemaService_createData js newId now st schemaName data = (Inr doc, st') \<longrightarrow>
                  getProp doc (fd_name field) = Num (Finite 0) \<and>
                  collections st' (toLowerCase schemaName) =
                    collections st (toLowerCase schemaName) @ [doc])))"
proof (intro conjI impI)
  show "convertField js field v =
            Inl (BadRequestException (''Field '' @ fd_name field @ '' is required''))
          \<longleftrightarrow> v = Undefined"
    by (rule required_error_iff_undefined [OF required])
  show "convertField js field Null \<noteq>
           Inl (BadRequestException (''Field '' @ fd_name field @ '' is required''))"
    by (rule null_is_not_absent [OF plain])
next
  assume "fd_type field = NUMBER"
  then show "convertField js field Null = Inr (Some (Num (Finite 0)))"
    by (rule null_number_is_zero)
next
  assume "fd_type field = NUMBER \<and> fd_name field \<noteq> toLowerCase schemaName @ ''Id'' \<and>
          getProp data (fd_name field) = Null"
    and "masterCache st (toLowerCase schemaName) = Some cached \<and>
         dto_fields (ce_schema cached) = [field]"
  then show "MasterService_createData js newId now st schemaName data =
                 (Inr (newDocument (ce_model cached) newId now [(fd_name field, Num (Finite 0))]),
                  save st (toLowerCase schemaName)
                    (newDocument (ce_model cached) newId now [(fd_name field, Num (Finite 0))]))"
    by (intro MasterService_createData_single_field) blast+
next
  assume "fd_type field = NUMBER \<and> fd_name field \<noteq> toLowerCase schemaName @ ''Id'' \<and>
          getProp data (fd_name field) = Null"
    and "schemaCache st (toLowerCase schemaName) = Some cached \<and>
         findSchema st (toLowerCase schemaName) = Some (ce_schema cached) \<and>
         dto_fields (ce_schema cached) = [field]"
  then show "SchemaService_createData js newId now st schemaName data =
                 (Inr (newDocument (ce_model cached) newId now [(fd_name field, Num (Finite 0))]),
                  save st (toLowerCase schemaName)
                    (newDocument (ce_model cached) newId now [(fd_name field, Num (Finite 0))]))"
    by (intro SchemaService_createData_single_field) blast+
next
  assume "fd_type field = NUMBER \<and> fd_name field \<noteq> toLowerCase schemaName @ ''Id'' \<and>
          getProp data (fd_name field) = Null"
    and "masterCache st (toLowerCase schemaName) = Some cached \<and>
         field \<in> set (dto_fields (ce_schema cached)) \<and>
         distinct (map fd_name (dto_fields (ce_schema cached)))"
  then show "MasterService_createData js newId now st schemaName data =
                 MasterService_createData js newId now st schemaName
                   (AList.update (fd_name field) (Num (Finite 0)) data)"
    by (intro MasterService_createData_null_like_zero) blast+
next
  assume h: "fd_type field = NUMBER \<and> fd_name field \<noteq> toLowerCase schemaName @ ''Id'' \<and>
          getProp data (fd_name field) = Null"
    and c: "masterCache st (toLowerCase schemaName) = Some cached \<and>
         field \<in> set (dto_fields (ce_schema cached)) \<and>
         distinct (map fd_name (dto_fields (ce_schema cached)))"
    and ok: "MasterService_createData js newId now st schemaName data = (Inr doc, st')"
  let ?data = "AList.delete (toLowerCase schemaName @ ''Id'') data"
  from c ok obtain cd where cd: "convertFields js (dto_fields (ce_schema cached)) ?data [] = Inr cd"
    and doc: "doc = newDocument (ce_model cached) newId now cd"
    and st': "st' = save st (toLowerCase schemaName) doc"
    by (auto simp: MasterService_createData_def Let_def split: sum.splits option.splits)
  from h have "convertField js field (getProp ?data (fd_name field)) = Inr (Some (Num (Finite 0)))"
    by (simp add: getProp_delete null_number_is_zero)
  with convertFields_writes [OF cd] c have "map_of cd (fd_name field) = Some (Num (Finite 0))"
    by blast
  then show "getProp doc (fd_name field) = Num (Finite 0)"
    by (simp add: doc newDocument_keeps)
  show "collections st' (toLowerCase schemaName) = collections st (toLowerCase schemaName) @ [doc]"
    by (simp add: st' save_def)
next
  assume "fd_type field = NUMBER \<and> fd_name field \<noteq> toLowerCase schemaName @ ''Id'' \<and>
          getProp data (fd_name field) = Null"
    and "schemaCache st (toLowerCase schemaName) = Some cached \<and>
         field \<in> set (dto_fields (ce_schema cached)) \<and>
         distinct (map fd_name (dto_fields (ce_schema cached)))"
  then show "SchemaService_createData js newId now st schemaName data =
                 SchemaService_createData js newId now st schemaName
                   (AList.update (fd_name field) (Num (Finite 0)) data)"
    by (intro SchemaService_createData_null_like_zero) blast+
next
  assume h: "fd_type field = NUMBER \<and> fd_name field \<noteq> toLowerCase schemaName @ ''Id'' \<and>
          getProp data (fd_name field) = Null"
    and c: "schemaCache st (toLowerCase schemaName) = Some cached \<and>
         field \<in> set (dto_fields (ce_schema cached)) \<and>
         distinct (map fd_name (dto_fields (ce_schema cached)))"
    and ok: "SchemaService_createData js newId now st schemaName data = (Inr doc, st')"
  let ?data = "AList.delete (toLowerCase schemaName @ ''Id'') data"
  from c ok obtain cd where cd: "convertFields js (dto_fields (ce_schema cached)) ?data [] = Inr cd"
    and doc: "doc = newDocument (ce_model cached) newId now cd"
    and st': "st' = save st (toLowerCase schemaName) doc"
    by (auto simp: SchemaService_createData_def Let_def split: sum.splits option.splits)
  from h have "convertField js field (getProp ?data (fd_name field)) = Inr (Some (Num (Finite 0)))"
    by (simp add: getProp_delete null_number_is_zero)
  with convertFields_writes [OF cd] c have "map_of cd (fd_name field) = Some (Num (Finite 0))"
    by blast
  then show "getProp doc (fd_name field) = Num (Finite 0)"
    by (simp add: doc newDocument_keeps)
  show "collections st' (toLowerCase schemaName) = collections st (toLowerCase schemaName) @ [doc]"
    by (simp add: st' save_def)
qed

text \<open>
  The schema \<^verbatim>\<open>person { age: number required }\<close>: a payload without \<^verbatim>\<open>age\<close> is refused as
  lacking a required field, and for the payload \<^verbatim>\<open>{ "age": null }\<close> both
  \<^verbatim>\<open>MasterService.createData\<close> and \<^verbatim>\<open>SchemaService.createData\<close> accept the record and
  store \<^verbatim>\<open>age: 0\<close>.
\<close>

theorem required_null_is_coerced_not_rejected_witness:
  "\<forall>js. fd_required ageField \<and> fd_type ageField \<noteq> MASTER \<and>
        convertField js ageField Undefined = Inl (BadRequestException ''Field age is required'') \<and>
        convertField js ageField Null = Inr (Some (Num (Finite 0))) \<and>
        MasterService_createData js ''p1'' (Finite 0) personRegistered ''person'' [(''age'', Null)] =
          (Inr personDoc, save personRegistered ''person'' personDoc) \<and>
        SchemaService_createData js ''p1'' (Finite 0) personRegistered ''person'' [(''age'', Null)] =
          (Inr personDoc, save personRegistered ''person'' personDoc) \<and>
        collections (save personRegistered ''person'' personDoc) ''person'' = [personDoc] \<and>
        getProp personDoc ''age'' = Num (Finite 0)"
proof
  fix js
  let ?cachedM = "\<lparr>ce_schema = personSchema,
      ce_model = systemFields ''person'' @ [(''age'', plainField ageField)]\<rparr>"
  have r: "fd_required ageField" and p: "fd_type ageField \<noteq> MASTER"
    and n: "fd_type ageField = NUMBER"
    by (simp_all add: ageField_def)
  have cacheM: "masterCache personRegistered (toLowerCase ''person'') = Some ?cachedM"
    and cacheS: "schemaCache personRegistered (toLowerCase ''person'') = Some ?cachedM"
    and stored: "findSchema personRegistered (toLowerCase ''person'') = Some (ce_schema ?cachedM)"
    and empty: "collections personRegistered ''person'' = []"
    by (simp_all add: personRegistered_def personSchema_def ageField_def emptyState_def registry_defs)
  have doc: "newDocument (ce_model ?cachedM) ''p1'' (Finite 0) [(fd_name ageField, Num (Finite 0))] = personDoc"
    by (simp add: personDoc_def ageField_def newDocument_def systemFields_def plainField_def
        has_key_def toLowerCase_def getMongooseType_def)
  have payload: "fd_name ageField \<noteq> toLowerCase ''person'' @ ''Id''"
      "getProp [(''age'', Null)] (fd_name ageField) = Null"
      "dto_fields (ce_schema ?cachedM) = [ageField]"
    by (simp_all add: ageField_def toLowerCase_def getProp_def personSchema_def)
  have lower: "toLowerCase ''person'' = ''person''"
    by (simp add: toLowerCase_def)
  from required_null_is_coerced_not_rejected [OF r p, where js = js and v = Undefined
      and st = personRegistered and schemaName = "''person''" and cached = ?cachedM
      and data = "[(''age'', Null)]" and newId = "''p1''" and now = "Finite 0"]
    n cacheM cacheS stored payload
  have "convertField js ageField Undefined =
          Inl (BadRequestException (''Field '' @ fd_name ageField @ '' is required''))"
    and "convertField js ageField Null = Inr (Some (Num (Finite 0)))"
    and "MasterService_createData js ''p1'' (Finite 0) personRegistered ''person'' [(''age'', Null)] =
          (Inr (newDocument (ce_model ?cachedM) ''p1'' (Finite 0) [(fd_name ageField, Num (Finite 0))]),
           save personRegistered (toLowerCase ''person'')
             (newDocument (ce_model ?cachedM) ''p1'' (Finite 0) [(fd_name ageField, Num (Finite 0))]))"
    and "SchemaService_createData js ''p1'' (Finite 0) personRegistered ''person'' [(''age'', Null)] =
          (Inr (newDocument (ce_model ?cachedM) ''p1'' (Finite 0) [(fd_name ageField, Num (Finite 0))]),
           save personRegistered (toLowerCase ''person'')
             (newDocument (ce_model ?cachedM) ''p1'' (Finite 0) [(fd_name ageField, Num (Finite 0))]))"
    by simp_all
  moreover have "fd_name ageField = ''age''" by (simp add: ageField_def)
  moreover have "collections (save personRegistered ''person'' personDoc) ''person'' = [personDoc]"
    by (simp add: save_def empty)
  moreover have "getProp personDoc ''age'' = Num (Finite 0)"
    by (simp add: personDoc_def getProp_def)
  ultimately show "fd_required ageField \<and> fd_type ageField \<noteq> MASTER \<and>
        convertField js ageField Undefined = Inl (BadRequestException ''Field age is required'') \<and>
        convertField js ageField Null = Inr (Some (Num (Finite 0))) \<and>
        MasterService_createData js ''p1'' (Finite 0) personRegistered ''person'' [(''age'', Null)] =
          (Inr personDoc, save personRegistered ''person'' personDoc) \<and>
        SchemaService_createData js ''p1'' (Finite 0) personRegistered ''person'' [(''age'', Null)] =
          (Inr personDoc, save personRegistered ''person'' personDoc) \<and>
        collections (save personRegistered ''person'' personDoc) ''person'' = [personDoc] \<and>
        getProp personDoc ''age'' = Num (Finite 0)"
    using r p doc lower by simp
qed

section \<open>Properties of the schema registry\<close>

lemma find_append_new: "find P xs = None \<Longrightarrow> P x \<Longrightarrow> find P (xs @ [x]) = Some x"
  by (induction xs) (auto split: if_splits)

lemma find_in_set: "x \<in> set xs \<Longrightarrow> P x \<Longrightarrow> find P xs \<noteq> None"
  by (auto simp: find_None_iff)

lemma schemas_updateSchemaCache: "schemas (updateSchemaCache st n s) = schemas st"
  by (simp add: updateSchemaCache_def split: sum.splits)

lemma transformFields_renames:
  "transformFields fs = Inr fs' \<Longrightarrow> list_all2 renamedField fs fs'"
proof (induction fs arbitrary: fs')
  case Nil
  then show ?case by simp
next
  case (Cons f fs)
  from Cons.prems obtain g gs where fs': "fs' = g # gs" and gs: "transformFields fs = Inr gs"
    and g: "renamedField f g"
    by (auto simp: renamedField_def split: if_splits option.splits sum.splits)
  with Cons.IH show ?case by simp
qed

lemma createSchema_persists:
  assumes "createSchema st dto = (Inr msg, st')"
  shows "\<exists>fields'. transformFields (dto_fields dto) = Inr fields' \<and>
           schemas st' = schemas st @ [dto\<lparr>dto_fields := fields'\<rparr>] \<and>
           findSchema st (toLowerCase (dto_name dto)) = None"
  using assms
  by (auto simp: createSchema_def Let_def schemas_updateSchemaCache
      split: if_splits sum.splits option.splits)

lemma getSchema_after_createSchema:
  assumes fresh: "findSchema st (toLowerCase (dto_name dto)) = None"
    and appended: "schemas st' = schemas st @ [stored]"
    and name: "dto_name stored = dto_name dto"
    and n: "toLowerCase n = dto_name dto"
  shows "getSchema st' n = Inr stored"
proof -
  from n have "toLowerCase (dto_name dto) = dto_name dto"
    using toLowerCase_idem [of n] by simp
  with fresh have "find (\<lambda>s. dto_name s = dto_name dto) (schemas st) = None"
    by (simp add: findSchema_def)
  then have "find (\<lambda>s. dto_name s = dto_name dto) (schemas st @ [stored]) = Some stored"
    by (rule find_append_new) (simp add: name)
  then show ?thesis
    by (simp add: getSchema_def findSchema_def appended n)
qed

text \<open>
  Claim C5, as the code has it. When \<^verbatim>\<open>createSchema\<close> succeeds it appends one definition
  to the registry: the definition it was given, with each MASTER field renamed to the
  lower-cased \<^verbatim>\<open>masterType\<close> followed by \<^verbatim>\<open>Id\<close> and every other field untouched. When the
  definition's name is lower-case, \<^verbatim>\<open>getSchema\<close> under any spelling of that name returns
  this persisted definition.
\<close>

theorem createSchema_renames_master_fields:
  assumes "createSchema st dto = (Inr msg, st')"
  shows "\<exists>fields'.
           schemas st' = schemas st @ [dto\<lparr>dto_fields := fields'\<rparr>]
         \<and> list_all2 renamedField (dto_fields dto) fields'
         \<and> (\<forall>n. toLowerCase n = dto_name dto \<longrightarrow>
               getSchema st' n = Inr (dto\<lparr>dto_fields := fields'\<rparr>))"
proof -
  from createSchema_persists [OF assms] obtain fields' where
    t: "transformFields (dto_fields dto) = Inr fields'"
    and s: "schemas st' = schemas st @ [dto\<lparr>dto_fields := fields'\<rparr>]"
    and fresh: "findSchema st (toLowerCase (dto_name dto)) = None"
    by blast
  have "getSchema st' n = Inr (dto\<lparr>dto_fields := fields'\<rparr>)" if "toLowerCase n = dto_name dto" for n
    using getSchema_after_createSchema [OF fresh s _ that] by simp
  with s transformFields_renames [OF t] show ?thesis by blast
qed

text \<open>
  With \<^verbatim>\<open>city\<close> registered, the store schema whose master field \<^verbatim>\<open>cityRef\<close> names \<^verbatim>\<open>city\<close>
  is created, and \<^verbatim>\<open>getSchema("STORE")\<close> returns it with the field renamed \<^verbatim>\<open>cityId\<close>.
\<close>

theorem createSchema_renames_master_fields_witness:
  "fst (createSchema cityRegistered (storeSchema ''city'' ONE_TO_ONE)) =
     Inr ''Schema store created successfully'' \<and>
   getSchema (snd (createSchema cityRegistered (storeSchema ''city'' ONE_TO_ONE))) ''STORE'' =
     Inr storedStoreSchema \<and>
   map fd_name (dto_fields storedStoreSchema) = [''name'', ''cityId'']"
proof -
  let ?dto = "storeSchema ''city'' ONE_TO_ONE"
  let ?st' = "snd (createSchema cityRegistered ?dto)"
  have created: "fst (createSchema cityRegistered ?dto) = Inr ''Schema store created successfully''"
    by (simp add: example_defs registry_defs)
  then have run: "createSchema cityRegistered ?dto = (Inr ''Schema store created successfully'', ?st')"
    by (simp add: prod_eq_iff)
  from createSchema_renames_master_fields [OF run] obtain fields' where
    renamed: "list_all2 renamedField (dto_fields ?dto) fields'"
    and get: "\<forall>n. toLowerCase n = dto_name ?dto \<longrightarrow> getSchema ?st' n = Inr (?dto\<lparr>dto_fields := fields'\<rparr>)"
    by blast
  from renamed have "fields' = [nameField, (cityRef ''city'' ONE_TO_ONE)\<lparr>fd_name := ''cityId''\<rparr>]"
    by (auto simp: storeSchema_def nameField_def cityRef_def renamedField_def toLowerCase_def
        list_all2_Cons1)
  moreover have "toLowerCase ''STORE'' = dto_name ?dto"
    by (simp add: storeSchema_def toLowerCase_def)
  ultimately have "getSchema ?st' ''STORE'' = Inr storedStoreSchema"
    using get by (simp add: storedStoreSchema_def)
  moreover have "map fd_name (dto_fields storedStoreSchema) = [''name'', ''cityId'']"
    by (simp add: storedStoreSchema_def nameField_def cityRef_def)
  ultimately show ?thesis
    using created by simp
qed

text \<open>
  Claim C5 as stated fails for a master field whose \<^verbatim>\<open>masterType\<close> is written \<^verbatim>\<open>City\<close>:
  the schema is valid (the registry holds \<^verbatim>\<open>city\<close>), and \<^verbatim>\<open>getSchema\<close> returns the field
  named \<^verbatim>\<open>cityId\<close>, which is not \<^verbatim>\<open>${masterType}Id\<close>, that is \<^verbatim>\<open>CityId\<close>.
\<close>

theorem createSchema_master_name_counterexample:
  "fst (createSchema cityRegistered (storeSchema ''City'' ONE_TO_ONE)) =
     Inr ''Schema store created successfully'' \<and>
   getSchema (snd (createSchema cityRegistered (storeSchema ''City'' ONE_TO_ONE))) ''store'' =
     Inr ((storeSchema ''City'' ONE_TO_ONE)
       \<lparr>dto_fields := [nameField, (cityRef ''City'' ONE_TO_ONE)\<lparr>fd_name := ''cityId''\<rparr>]\<rparr>) \<and>
   ''cityId'' \<noteq> ''City'' @ ''Id''"
  by (simp add: example_defs registry_defs)

subsection \<open>Duplicate names\<close>

lemma createSchema_conflict:
  "findSchema st (toLowerCase (dto_name dto)) \<noteq> None \<Longrightarrow>
   createSchema st dto =
     (Inl (BadRequestException (''Schema '' @ toLowerCase (dto_name dto) @ '' already exists'')), st)"
  by (simp add: createSchema_def Let_def)

text \<open>
  The duplicate check works when the first definition was submitted under a lower-case
  name: every later definition whose name is equal up to letter case is refused.
\<close>

lemma createSchema_twice_lower_case:
  assumes first: "createSchema st d1 = (Inr msg, st1)"
    and lower: "dto_name d1 = toLowerCase (dto_name d1)"
    and same: "toLowerCase (dto_name d2) = toLowerCase (dto_name d1)"
  shows "createSchema st1 d2 =
    (Inl (BadRequestException (''Schema '' @ toLowerCase (dto_name d2) @ '' already exists'')), st1)"
proof -
  from createSchema_persists [OF first] obtain fields' where
    s: "schemas st1 = schemas st @ [d1\<lparr>dto_fields := fields'\<rparr>]"
    and fresh: "findSchema st (toLowerCase (dto_name d1)) = None"
    by blast
  from lower have "toLowerCase (dto_name d1) = dto_name d1" by simp
  from getSchema_after_createSchema [OF fresh s _ this]
  have "getSchema st1 (dto_name d1) = Inr (d1\<lparr>dto_fields := fields'\<rparr>)" by simp
  then have "findSchema st1 (toLowerCase (dto_name d1)) \<noteq> None"
    by (auto simp: getSchema_def split: option.splits)
  with same show ?thesis
    by (simp add: createSchema_conflict)
qed

text \<open>
  Claim C2 fails on the code. \<^verbatim>\<open>createSchema\<close> looks for an existing definition under the
  lower-cased name, but persists the name as it was submitted. After a schema named
  \<^verbatim>\<open>City\<close> has been created, the registry holds no name \<^verbatim>\<open>city\<close>: creating \<^verbatim>\<open>city\<close>, and
  creating \<^verbatim>\<open>City\<close> once more, both succeed; the registry then holds \<^verbatim>\<open>City\<close> twice, and
  \<^verbatim>\<open>getSchema("City")\<close> finds neither.
\<close>

theorem createSchema_upper_case_name_is_not_unique:
  "fst (createSchema emptyState upperCitySchema) = Inr ''Schema city created successfully'' \<and>
   fst (createSchema (snd (createSchema emptyState upperCitySchema)) citySchema) =
     Inr ''Schema city created successfully'' \<and>
   fst (createSchema (snd (createSchema emptyState upperCitySchema)) upperCitySchema) =
     Inr ''Schema city created successfully'' \<and>
   map dto_name (schemas (snd (createSchema (snd (createSchema emptyState upperCitySchema))
       upperCitySchema))) = [''City'', ''City''] \<and>
   getSchema (snd (createSchema emptyState upperCitySchema)) ''City'' =
     Inl (NotFoundException ''Schema City does not exist'')"
  by (simp add: example_defs registry_defs)

subsection \<open>Deleting a schema\<close>

text \<open>
  The guard of \<^verbatim>\<open>deleteSchema\<close> works for a schema whose persisted name is lower-case
  and a master field that spells \<^verbatim>\<open>masterType\<close> the same way: without \<^verbatim>\<open>force\<close> the call
  fails and the message lists every referencing schema; with \<^verbatim>\<open>force\<close> the first
  definition of that name, the model, the cache entry of \<^verbatim>\<open>SchemaService\<close> and the
  records go.
\<close>

lemma deleteSchema_guard_lower_case:
  assumes a: "A \<in> set (schemas st)" and b: "B \<in> set (schemas st)"
    and lower: "dto_name A = toLowerCase (dto_name A)"
    and ref: "list_ex (\<lambda>f. fd_type f = MASTER \<and> fd_masterType f = Some (dto_name A)) (dto_fields B)"
  shows "deleteSchema st (dto_name A) False =
          (Inl (BadRequestException
             (''Cannot delete schema '' @ dto_name A @
              '' because it is referenced by other schemas: '' @
              join '', '' (map dto_name (referencingSchemas st (dto_name A))) @
              ''. Use force=true to delete anyway.'')), st)
       \<and> B \<in> set (referencingSchemas st (dto_name A))"
proof -
  have r: "B \<in> set (referencingSchemas st (dto_name A))"
    using b ref by (simp add: referencingSchemas_def)
  have "findSchema st (dto_name A) \<noteq> None"
    unfolding findSchema_def using a by (intro find_in_set [of A]) simp_all
  moreover from r have "referencingSchemas st (dto_name A) \<noteq> []" by auto
  ultimately show ?thesis
    using lower r by (simp add: deleteSchema_def Let_def)
qed

lemma deleteSchema_forced_lower_case:
  assumes a: "A \<in> set (schemas st)" and lower: "dto_name A = toLowerCase (dto_name A)"
  shows "\<exists>st'. deleteSchema st (dto_name A) True =
            (Inr (''Schema '' @ dto_name A @ '' deleted successfully''), st')
     \<and> schemas st' = deleteOne (\<lambda>s. dto_name s = dto_name A) (schemas st)
     \<and> schemaCache st' (dto_name A) = None \<and> dto_name A \<notin> models st'
     \<and> collections st' (dto_name A) = []
     \<and> masterCache st' = masterCache st"
proof -
  have "findSchema st (dto_name A) \<noteq> None"
    unfolding findSchema_def using a by (intro find_in_set [of A]) simp_all
  then show ?thesis
    using lower by (simp add: deleteSchema_def Let_def)
qed

text \<open>
  Claim C4 fails on the code. The registry reached by creating \<^verbatim>\<open>City\<close>, \<^verbatim>\<open>city\<close> and a
  store whose master field has \<^verbatim>\<open>masterType: "City"\<close> holds the three definitions, and the
  store references the schema named \<^verbatim>\<open>City\<close> by exactly that name. \<^verbatim>\<open>deleteSchema("City")\<close>
  without \<^verbatim>\<open>force\<close> succeeds: it looks for references to \<^verbatim>\<open>city\<close>, finds none, and removes
  the definition of \<^verbatim>\<open>city\<close>, leaving \<^verbatim>\<open>City\<close> in place. The same comparison lets
  \<^verbatim>\<open>deleteSchema("city")\<close> through when only \<^verbatim>\<open>city\<close> and that store are registered.
\<close>

theorem deleteSchema_misses_upper_case_reference:
  "map dto_name (schemas mixedCaseRegistry) = [''City'', ''city'', ''store''] \<and>
   map fd_masterType (dto_fields (schemas mixedCaseRegistry ! 2)) = [None, Some ''City''] \<and>
   fst (deleteSchema mixedCaseRegistry ''City'' False) = Inr ''Schema City deleted successfully'' \<and>
   map dto_name (schemas (snd (deleteSchema mixedCaseRegistry ''City'' False))) = [''City'', ''store''] \<and>
   fst (deleteSchema (snd (createSchema cityRegistered (storeSchema ''City'' ONE_TO_ONE))) ''city'' False) =
     Inr ''Schema city deleted successfully''"
  by (simp add: example_defs registry_defs)

section \<open>Properties of reference validation\<close>

lemma checkIds_None_iff:
  "checkIds js st mt ids = None \<longleftrightarrow> list_all (exists_in st mt (mt @ ''Id'')) ids"
  by (induction ids) auto

text \<open>One missing id after any number of valid ones fails the check, and is the id named.\<close>

lemma checkIds_names_first_missing:
  assumes "list_all (exists_in st mt (mt @ ''Id'')) valid"
    and "\<not> exists_in st mt (mt @ ''Id'') missing"
  shows "checkIds js st mt (valid @ missing # others) =
     Some (BadRequestException
       (''Invalid reference: '' @ ToString js missing @ '' does not exist in '' @ mt))"
  using assms by (induction valid) auto

lemma MasterService_validateFields_every_id:
  assumes "MasterService_validateFields js st fs data = None"
    and "f \<in> set fs" and "fd_type f = MASTER" and "fd_masterType f = Some mt"
    and "getProp data (fd_name f) = Arr ids"
  shows "list_all (exists_in st (toLowerCase mt) (toLowerCase mt @ ''Id'')) ids"
  using assms
proof (induction fs)
  case Nil
  then show ?case by simp
next
  case (Cons g fs)
  show ?case
  proof (cases "f = g")
    case True
    with Cons.prems show ?thesis
      by (auto simp: Let_def checkIds_None_iff split: if_splits option.splits)
  next
    case False
    with Cons.prems have "MasterService_validateFields js st fs data = None" "f \<in> set fs"
      by (auto simp: Let_def split: if_splits option.splits)
    with Cons.IH Cons.prems show ?thesis by blast
  qed
qed

lemma runChecks_None:
  "runChecks js st checks = None \<Longrightarrow> (mt, rid) \<in> set checks \<Longrightarrow> exists_in st mt (mt @ ''Id'') rid"
  by (induction js st checks rule: runChecks.induct) (auto split: if_splits)

lemma collectChecks_Cons:
  "collectChecks (g # fs) data isUpdate = Inr checks \<Longrightarrow>
   \<exists>checks'. collectChecks fs data isUpdate = Inr checks' \<and> set checks' \<subseteq> set checks"
  by (cases "getProp data (fd_name g)")
     (auto simp: Let_def split: if_splits option.splits sum.splits)

lemma collectChecks_covers:
  assumes "collectChecks fs data isUpdate = Inr checks"
    and "f \<in> set fs" and "fd_type f = MASTER" and "fd_masterType f = Some mt"
    and "getProp data (fd_name f) = Arr ids" and "rid \<in> set ids"
  shows "(toLowerCase mt, rid) \<in> set checks"
  using assms
proof (induction fs arbitrary: checks)
  case Nil
  then show ?case by simp
next
  case (Cons g fs)
  show ?case
  proof (cases "f = g")
    case True
    with Cons.prems show ?thesis
      by (auto simp: Let_def getProp_def has_key_def split: if_splits option.splits sum.splits)
  next
    case False
    from collectChecks_Cons [OF Cons.prems(1)] obtain checks' where
      "collectChecks fs data isUpdate = Inr checks'" and "set checks' \<subseteq> set checks"
      by blast
    with Cons.IH Cons.prems False show ?thesis by auto
  qed
qed

text \<open>
  What holds of claim C3 in both services: a record whose master field carries an array
  is created only if every id of the array exists in the target collection. The check
  goes by the shape of the value, not by the relationship type of the field.
\<close>

lemma MasterService_createData_every_id:
  assumes ok: "MasterService_createData js newId now st schemaName data = (Inr doc, st')"
    and cached: "masterCache st (toLowerCase schemaName) = Some cached"
    and f: "f \<in> set (dto_fields (ce_schema cached))"
    and distinct: "distinct (map fd_name (dto_fields (ce_schema cached)))"
    and master: "fd_type f = MASTER" "fd_masterType f = Some mt"
    and name: "fd_name f \<noteq> toLowerCase schemaName @ ''Id''"
    and ids: "getProp data (fd_name f) = Arr ids"
  shows "list_all (exists_in st (toLowerCase mt) (toLowerCase mt @ ''Id'')) ids"
proof -
  let ?data = "AList.delete (toLowerCase schemaName @ ''Id'') data"
  from ok cached obtain cd where cd: "convertFields js (dto_fields (ce_schema cached)) ?data [] = Inr cd"
    and v: "MasterService_validateFields js st (dto_fields (ce_schema cached)) cd = None"
    by (auto simp: MasterService_createData_def MasterService_validateMasterReferences_def Let_def
        split: sum.splits option.splits)
  from name ids have "getProp ?data (fd_name f) = Arr ids" by (simp add: getProp_delete)
  with master have "convertField js f (getProp ?data (fd_name f)) = Inr (Some (Arr ids))"
    by (simp add: convertField_def)
  from convertFields_writes [OF cd f distinct this] have "getProp cd (fd_name f) = Arr ids"
    by (simp add: getProp_def)
  from MasterService_validateFields_every_id [OF v f master this] show ?thesis .
qed

lemma SchemaService_createData_every_id:
  assumes ok: "SchemaService_createData js newId now st schemaName data = (Inr doc, st')"
    and cached: "schemaCache st (toLowerCase schemaName) = Some cached"
    and stored: "findSchema st (toLowerCase schemaName) = Some (ce_schema cached)"
    and f: "f \<in> set (dto_fields (ce_schema cached))"
    and distinct: "distinct (map fd_name (dto_fields (ce_schema cached)))"
    and master: "fd_type f = MASTER" "fd_masterType f = Some mt"
    and name: "fd_name f \<noteq> toLowerCase schemaName @ ''Id''"
    and ids: "getProp data (fd_name f) = Arr ids"
  shows "list_all (exists_in st (toLowerCase mt) (toLowerCase mt @ ''Id'')) ids"
proof -
  let ?data = "AList.delete (toLowerCase schemaName @ ''Id'') data"
  from ok cached stored obtain cd checks where
    cd: "convertFields js (dto_fields (ce_schema cached)) ?data [] = Inr cd"
    and c: "collectChecks (dto_fields (ce_schema cached)) cd False = Inr checks"
    and r: "runChecks js st checks = None"
    by (auto simp: SchemaService_createData_def SchemaService_validateMasterReferences_def Let_def
        split: sum.splits option.splits)
  from name ids have "getProp ?data (fd_name f) = Arr ids" by (simp add: getProp_delete)
  with master have "convertField js f (getProp ?data (fd_name f)) = Inr (Some (Arr ids))"
    by (simp add: convertField_def)
  from convertFields_writes [OF cd f distinct this] have "getProp cd (fd_name f) = Arr ids"
    by (simp add: getProp_def)
  from collectChecks_covers [OF c f master this] runChecks_None [OF r]
  show ?thesis by (auto simp: list_all_iff)
qed

text \<open>
  In the shop, a store that names the city \<^verbatim>\<open>c1\<close> and an unknown \<^verbatim>\<open>nowhere\<close> is refused by
  both services, and the message names \<^verbatim>\<open>nowhere\<close>.
\<close>

lemma createData_one_missing_id:
  "fst (MasterService_createData js ''s2'' (Finite 0) shopState ''store''
        [(''name'', Str ''S2''), (''cityId'', Arr [Str ''c1'', Str ''nowhere''])]) =
     Inl (BadRequestException ''Invalid reference: nowhere does not exist in city'') \<and>
   fst (SchemaService_createData js ''s2'' (Finite 0) shopState ''store''
        [(''name'', Str ''S2''), (''cityId'', Arr [Str ''c1'', Str ''nowhere''])]) =
     Inl (BadRequestException ''Invalid reference: nowhere does not exist in city'')"
  by (simp add: example_defs registry_defs record_defs)

text \<open>
  Claim C3 fails on the code. For a master field of cardinality one-to-many,
  \<^verbatim>\<open>MasterService.buildSchemaDefinition\<close> builds the same single string slot as for
  one-to-one (it never reads \<^verbatim>\<open>relationshipType\<close>), where
  \<^verbatim>\<open>SchemaService.buildSchemaDefinition\<close> builds a collection of references. The model
  that \<^verbatim>\<open>MasterService\<close> caches when the schema is created, the one its \<^verbatim>\<open>createData\<close>
  writes through, therefore has a single reference value for the collection field.
\<close>

theorem MasterService_model_ignores_cardinality:
  "MasterService_buildSchemaDefinition (storeSchema ''city'' ONE_TO_MANY) =
     Inr (systemFields ''store'' @ [(''name'', plainField nameField),
       (''cityId'', Single \<lparr>p_type = TString, p_required = True, p_unique = False,
          p_default = NoDefault, p_ref = Some ''city''\<rparr>)]) \<and>
   SchemaService_buildSchemaDefinition (storeSchema ''city'' ONE_TO_MANY) =
     Inr (systemFields ''store'' @ [(''name'', plainField nameField),
       (''cityId'', ArrayOf \<lparr>p_type = TString, p_required = False, p_unique = False,
          p_default = NoDefault, p_ref = Some ''city''\<rparr>)]) \<and>
   map_option (\<lambda>cached. map_of (ce_model cached) ''cityId'')
     (masterCache (snd (createSchema cityRegistered (storeSchema ''city'' ONE_TO_MANY))) ''store'') =
     Some (Some (Single \<lparr>p_type = TString, p_required = True, p_unique = False,
          p_default = NoDefault, p_ref = Some ''city''\<rparr>))"
  by (simp add: example_defs registry_defs)

section \<open>Properties of the update\<close>

lemma setAll_other_key: "k \<notin> fst ` set data \<Longrightarrow> map_of (setAll data d) k = map_of d k"
  unfolding setAll_def
  by (induction data arbitrary: d) (auto simp: update_conv')

lemma findOneAndUpdate_keeps_key:
  "findOneAndUpdate key v data ds = Some (updated, ds') \<Longrightarrow> key \<notin> fst ` set data \<Longrightarrow>
   map_of updated key = Some v"
  by (induction ds arbitrary: ds') (auto simp: setAll_other_key split: if_splits option.splits)

lemma findOneAndUpdate_exists:
  "list_ex (\<lambda>d. map_of d key = Some v) ds \<Longrightarrow> findOneAndUpdate key v data ds \<noteq> None"
  by (induction ds) (auto split: option.splits)

text \<open>
  \<^verbatim>\<open>SchemaService.update\<close> takes the steps of the specification: a missing record is
  \<^verbatim>\<open>NotFound\<close>; a successful update has passed the reference validation in partial mode
  on the payload without the identifier, has written exactly that payload over the
  record, and returns the record with its identifier unchanged.
\<close>

lemma SchemaService_update_steps:
  assumes cached: "schemaCache st (toLowerCase schemaName) = Some cached"
  shows "(\<not> exists_in st (toLowerCase schemaName) (toLowerCase schemaName @ ''Id'') (Str recId) \<longrightarrow>
          SchemaService_update js st schemaName recId data =
            (Inl (NotFoundException (''Record not found in '' @ schemaName)), st))
       \<and> (\<forall>r st'. SchemaService_update js st schemaName recId data = (Inr r, st') \<longrightarrow>
            SchemaService_validateMasterReferences js st schemaName
              (AList.delete (toLowerCase schemaName @ ''Id'') data) True = None
          \<and> (\<exists>updated. r = Some updated \<and>
                findOneAndUpdate (toLowerCase schemaName @ ''Id'') (Str recId)
                  (AList.delete (toLowerCase schemaName @ ''Id'') data)
                  (collections st (toLowerCase schemaName))
                 = Some (updated, collections st' (toLowerCase schemaName)) \<and>
                getProp updated (toLowerCase schemaName @ ''Id'') = Str recId))"
proof (intro conjI impI allI)
  assume "\<not> exists_in st (toLowerCase schemaName) (toLowerCase schemaName @ ''Id'') (Str recId)"
  with cached show "SchemaService_update js st schemaName recId data =
            (Inl (NotFoundException (''Record not found in '' @ schemaName)), st)"
    by (simp add: SchemaService_update_def Let_def)
next
  fix r st'
  assume ok: "SchemaService_update js st schemaName recId data = (Inr r, st')"
  with cached show "SchemaService_validateMasterReferences js st schemaName
              (AList.delete (toLowerCase schemaName @ ''Id'') data) True = None"
    by (auto simp: SchemaService_update_def Let_def split: if_splits option.splits)
  from ok cached have ex: "exists_in st (toLowerCase schemaName) (toLowerCase schemaName @ ''Id'') (Str recId)"
    by (auto simp: SchemaService_update_def Let_def split: if_splits option.splits)
  from findOneAndUpdate_exists [OF ex [unfolded exists_in_def]]
  obtain updated docs where u: "findOneAndUpdate (toLowerCase schemaName @ ''Id'') (Str recId)
                  (AList.delete (toLowerCase schemaName @ ''Id'') data)
                  (collections st (toLowerCase schemaName)) = Some (updated, docs)"
    by fastforce
  with ok cached ex have "r = Some updated" "collections st' (toLowerCase schemaName) = docs"
    by (auto simp: SchemaService_update_def Let_def split: if_splits option.splits)
  moreover from findOneAndUpdate_keeps_key [OF u delete_notin_dom]
  have "getProp updated (toLowerCase schemaName @ ''Id'') = Str recId"
    by (simp add: getProp_def)
  ultimately show "\<exists>updated. r = Some updated \<and>
                findOneAndUpdate (toLowerCase schemaName @ ''Id'') (Str recId)
                  (AList.delete (toLowerCase schemaName @ ''Id'') data)
                  (collections st (toLowerCase schemaName))
                 = Some (updated, collections st' (toLowerCase schemaName)) \<and>
                getProp updated (toLowerCase schemaName @ ''Id'') = Str recId"
    using u by simp
qed

text \<open>The shop is the state the operations themselves produce.\<close>

lemma shopState_is_reachable:
  "snd (MasterService_createData js ''s1'' (Finite 0)
     (snd (MasterService_createData js ''c1'' (Finite 0)
        (snd (createSchema cityRegistered (storeSchema ''city'' ONE_TO_ONE)))
        ''city'' [(''cityName'', Str ''Pune'')]))
     ''store'' [(''name'', Str ''S1''), (''cityId'', Str ''c1'')]) = shopState"
  by (simp add: example_defs registry_defs record_defs) (auto simp: fun_eq_iff)

text \<open>
  Claim C1 fails on the code. \<^verbatim>\<open>MasterService.update\<close>, which the record endpoint
  \<^verbatim>\<open>PUT master/:masterName/data/:id\<close> calls, passes the payload to \<^verbatim>\<open>findOneAndUpdate\<close> as
  it came: the identifier field is not stripped and no reference is validated. In the
  shop, the payload \<^verbatim>\<open>{ cityId: "nowhere", storeId: "s2" }\<close> for the store \<^verbatim>\<open>s1\<close> is written
  and returned, although no city \<^verbatim>\<open>nowhere\<close> exists; \<^verbatim>\<open>SchemaService.update\<close> refuses the
  same call with the validation failure the claim describes.
\<close>

theorem MasterService_update_skips_strip_and_validation:
  "MasterService_update shopState ''store'' ''s1''
       [(''cityId'', Str ''nowhere''), (''storeId'', Str ''s2'')] =
     (Inr tamperedStoreDoc,
      shopState\<lparr>collections := (collections shopState)(''store'' := [tamperedStoreDoc])\<rparr>) \<and>
   \<not> exists_in shopState ''city'' ''cityId'' (Str ''nowhere'') \<and>
   (\<forall>js. SchemaService_update js shopState ''store'' ''s1''
       [(''cityId'', Str ''nowhere''), (''storeId'', Str ''s2'')] =
     (Inl (BadRequestException ''Invalid reference: nowhere does not exist in city''), shopState))"
  by (simp add: example_defs registry_defs record_defs)

section \<open>Properties of listing\<close>

lemma mset_sortBy: "mset (sortBy sem f ord ds) = mset ds"
  by (simp add: sortBy_def)

lemma length_sortBy: "length (sortBy sem f ord ds) = length ds"
  by (simp add: sortBy_def)

lemma sorted_sortBy_asc:
  "ord \<noteq> ''desc'' \<Longrightarrow> sorted (map (\<lambda>d. sort_rank sem (getProp d f)) (sortBy sem f ord ds))"
  by (simp add: sortBy_def sorted_sort_key)

lemma sorted_sortBy_desc:
  "sorted (rev (map (\<lambda>d. sort_rank sem (getProp d f)) (sortBy sem f ''desc'' ds)))"
  by (simp add: sortBy_def sorted_sort_key rev_map [symmetric])

text \<open>
  Claim C9, as the code has it. For a registered schema, a page number of at least 1 and
  a limit of at least 1 (after the defaults 1 and 10), \<^verbatim>\<open>MasterService.findAll\<close> returns
  \<^verbatim>\<open>{ data, total, page, limit, totalPages }\<close> where \<open>total\<close> counts the records that match
  the query, \<open>totalPages\<close> is the ceiling of \<open>total / limit\<close>, and \<open>data\<close> is the matching
  records put in the order of the sort field (ascending, or descending for \<^verbatim>\<open>desc\<close>),
  without the first \<open>(page - 1) * limit\<close> of them and cut after \<open>limit\<close>. With 25 matching
  records, limit 10 and page 3 the data holds 5 records and \<open>totalPages\<close> is 3.
\<close>

theorem listRecords_pagination:
  assumes cached: "masterCache st (toLowerCase schemaName) = Some cached"
    and p: "p = (case o_page options of None \<Rightarrow> 1 | Some n \<Rightarrow> n)"
    and l: "l = (case o_limit options of None \<Rightarrow> 10 | Some n \<Rightarrow> n)"
    and sortField: "sortField = (case o_sort options of None \<Rightarrow> ''createdAt'' | Some s \<Rightarrow> s)"
    and ord: "ord = (case o_order options of None \<Rightarrow> ''desc'' | Some s \<Rightarrow> s)"
    and matching: "matching = filter
        (matches sem (buildQuery [''name'', ''description''] (o_search options) (o_filters options)))
        (collections st (toLowerCase schemaName))"
    and ordered: "ordered = sortBy sem sortField ord matching"
    and page_pos: "1 \<le> p" and limit_pos: "1 \<le> l"
  shows "MasterService_findAll sem st schemaName options =
           Inr \<lparr>r_total = length matching, r_page = p, r_limit = l,
                r_totalPages = Finite (of_int \<lceil>real (length matching) / real_of_int l\<rceil>),
                r_data = take (nat l) (drop (nat ((p - 1) * l)) ordered)\<rparr>
       \<and> length (take (nat l) (drop (nat ((p - 1) * l)) ordered)) \<le> nat l
       \<and> mset ordered = mset matching
       \<and> (if ord = ''desc''
           then sorted (rev (map (\<lambda>d. sort_rank sem (getProp d sortField)) ordered))
           else sorted (map (\<lambda>d. sort_rank sem (getProp d sortField)) ordered))
       \<and> (length matching = 25 \<and> l = 10 \<and> p = 3 \<longrightarrow>
            length (take (nat l) (drop (nat ((p - 1) * l)) ordered)) = 5 \<and>
            \<lceil>real (length matching) / real_of_int l\<rceil> = 3)"
proof -
  have skip: "\<not> (p - 1) * l < 0"
    using page_pos limit_pos by (simp add: mult_less_0_iff)
  have lim: "l \<noteq> 0" "\<bar>l\<bar> = l"
    using limit_pos by simp_all
  have result: "MasterService_findAll sem st schemaName options =
           Inr \<lparr>r_total = length matching, r_page = p, r_limit = l,
                r_totalPages = Finite (of_int \<lceil>real (length matching) / real_of_int l\<rceil>),
                r_data = take (nat l) (drop (nat ((p - 1) * l)) ordered)\<rparr>"
    using cached skip lim
    by (simp add: MasterService_findAll_def runFind_def countDocuments_def Math_ceil_div_def
        Let_def p [symmetric] l [symmetric] sortField [symmetric] ord [symmetric]
        matching [symmetric] ordered [symmetric])
  have bounded: "length (take (nat l) (drop (nat ((p - 1) * l)) ordered)) \<le> nat l"
    by simp
  have perm: "mset ordered = mset matching"
    by (simp add: ordered mset_sortBy)
  have sorted: "if ord = ''desc''
           then sorted (rev (map (\<lambda>d. sort_rank sem (getProp d sortField)) ordered))
           else sorted (map (\<lambda>d. sort_rank sem (getProp d sortField)) ordered)"
    using sorted_sortBy_asc [of ord sem sortField matching]
      sorted_sortBy_desc [of sem sortField matching]
    by (simp add: ordered)
  have example: "length matching = 25 \<and> l = 10 \<and> p = 3 \<longrightarrow>
            length (take (nat l) (drop (nat ((p - 1) * l)) ordered)) = 5 \<and>
            \<lceil>real (length matching) / real_of_int l\<rceil> = 3"
    by (auto simp: ordered length_sortBy)
  from result bounded perm sorted example show ?thesis by blast
qed

text \<open>
  Twenty-five cities, \<^verbatim>\<open>page=3\<close> and \<^verbatim>\<open>limit=10\<close> with no search and no filters: whatever
  the store's order of values, the page holds the last 5 of the 25 and \<open>totalPages\<close> is 3.
\<close>

theorem listRecords_pagination_witness:
  "\<forall>sem. MasterService_findAll sem pagedState ''city'' thirdPage =
       Inr \<lparr>r_total = 25, r_page = 3, r_limit = 10, r_totalPages = Finite 3,
            r_data = drop 20 (sortBy sem ''createdAt'' ''desc'' twentyFiveCities)\<rparr> \<and>
     length (drop 20 (sortBy sem ''createdAt'' ''desc'' twentyFiveCities)) = 5"
proof
  fix sem
  let ?ordered = "sortBy sem ''createdAt'' ''desc'' twentyFiveCities"
  have cached: "masterCache pagedState (toLowerCase ''city'') =
      Some \<lparr>ce_schema = citySchema, ce_model = cityModel\<rparr>"
    by (simp add: pagedState_def shopState_def toLowerCase_def)
  have matching: "twentyFiveCities = filter
        (matches sem (buildQuery [''name'', ''description''] (o_search thirdPage) (o_filters thirdPage)))
        (collections pagedState (toLowerCase ''city''))"
    by (simp add: pagedState_def shopState_def toLowerCase_def thirdPage_def buildQuery_def
        matches_def)
  have n: "length twentyFiveCities = 25"
    by (simp add: twentyFiveCities_def)
  from listRecords_pagination [OF cached, where options = thirdPage and p = 3 and l = 10
      and sortField = "''createdAt''" and ord = "''desc''" and sem = sem
      and matching = twentyFiveCities and ordered = ?ordered, OF _ _ _ _ matching]
  have "MasterService_findAll sem pagedState ''city'' thirdPage =
           Inr \<lparr>r_total = length twentyFiveCities, r_page = 3, r_limit = 10,
                r_totalPages = Finite (of_int \<lceil>real (length twentyFiveCities) / real_of_int 10\<rceil>),
                r_data = take (nat 10) (drop (nat ((3 - 1) * 10)) ?ordered)\<rparr>"
    and "length twentyFiveCities = 25 \<and> (10::int) = 10 \<and> (3::int) = 3 \<longrightarrow>
            length (take (nat 10) (drop (nat ((3 - 1) * 10)) ?ordered)) = 5"
    by (simp_all add: thirdPage_def)
  with n show "MasterService_findAll sem pagedState ''city'' thirdPage =
       Inr \<lparr>r_total = 25, r_page = 3, r_limit = 10, r_totalPages = Finite 3,
            r_data = drop 20 ?ordered\<rparr> \<and>
     length (drop 20 ?ordered) = 5"
    by (simp add: length_sortBy)
qed

text \<open>
  Claim C9 as stated fails outside these bounds, which neither the controller nor
  \<^verbatim>\<open>findAll\<close> checks. With the same 25 cities and \<^verbatim>\<open>limit=0\<close> the store applies no limit:
  the data holds all 25 records, more than the limit, and \<open>totalPages\<close> is \<^verbatim>\<open>Infinity\<close>.
  With \<^verbatim>\<open>page=0\<close> the skip is negative and the store refuses the query, so nothing is
  returned.
\<close>

theorem listRecords_zero_limit_counterexample:
  "\<forall>sem. MasterService_findAll sem pagedState ''city'' zeroLimit =
       Inr \<lparr>r_total = 25, r_page = 1, r_limit = 0, r_totalPages = PosInfinity,
            r_data = sortBy sem ''createdAt'' ''desc'' twentyFiveCities\<rparr> \<and>
     length (sortBy sem ''createdAt'' ''desc'' twentyFiveCities) = 25 \<and>
     MasterService_findAll sem pagedState ''city'' pageZero =
       Inl (MongoError ''Skip value must be non-negative'')"
proof -
  have "length twentyFiveCities = 25"
    by (simp add: twentyFiveCities_def)
  then show ?thesis
    by (simp add: pagedState_def shopState_def zeroLimit_def pageZero_def
        MasterService_findAll_def buildQuery_def runFind_def countDocuments_def matches_def
        Math_ceil_div_def toLowerCase_def length_sortBy)
qed

text \<open>
  In a store that orders dates by their value, the third page of the 25 cities, newest
  first, is the five oldest cities from the one created at 4 down to the one created
  at 0.
\<close>

lemma third_page_in_time_order:
  "MasterService_findAll timeOrder pagedState ''city'' thirdPage =
     Inr \<lparr>r_total = 25, r_page = 3, r_limit = 10, r_totalPages = Finite 3,
       r_data = map (\<lambda>(n, i). [(''cityId'', Str i), (''createdAt'', DateObj (Finite n)),
                      (''cityName'', Str ''Pune'')])
          [(4, ''az''), (3, ''ay''), (2, ''ax''), (1, ''aw''), (0, ''av'')]\<rparr>"
  by (simp add: pagedState_def shopState_def thirdPage_def MasterService_findAll_def
      buildQuery_def runFind_def countDocuments_def matches_def Math_ceil_div_def toLowerCase_def
      sortBy_def twentyFiveCities_def timeOrder_def getProp_def enumerate_eq_zip upt_rec_numeral)

subsection \<open>Search\<close>

text \<open>
  \<^verbatim>\<open>SchemaService.findAll\<close> searches the string paths of the model. For the city schema
  these are the identifier and \<^verbatim>\<open>cityName\<close>.
\<close>

lemma SchemaService_search_fields: "stringPaths cityModel = [''cityId'', ''cityName'']"
  by (simp add: stringPaths_def cityModel_def systemFields_def plainField_def cityNameField_def
      getMongooseType_def toLowerCase_def)

text \<open>
  Claim C6 fails on the code. \<^verbatim>\<open>MasterService.findAll\<close>, which the record endpoint
  \<^verbatim>\<open>GET master/:masterName/data\<close> calls, searches the two fixed fields \<^verbatim>\<open>name\<close> and
  \<^verbatim>\<open>description\<close>, whatever the schema. The only string-typed field of the city schema is
  \<^verbatim>\<open>cityName\<close>; the city whose \<^verbatim>\<open>cityName\<close> is \<^verbatim>\<open>Pune\<close> contains the search term \<^verbatim>\<open>Pune\<close> and
  is not found, for every semantics of the store's regular expressions.
\<close>

theorem MasterService_findAll_searches_fixed_fields:
  "map fd_name (filter (\<lambda>f. fd_type f = STRING) (dto_fields citySchema)) = [''cityName''] \<and>
   collections shopState ''city'' = [cityDoc] \<and>
   getProp cityDoc ''cityName'' = Str ''Pune'' \<and>
   buildQuery [''name'', ''description''] (o_search searchPune) (o_filters searchPune) =
     [(''$or'', SearchOr [''name'', ''description''] ''Pune'')] \<and>
   (\<forall>sem. MasterService_findAll sem shopState ''city'' searchPune =
      Inr \<lparr>r_total = 0, r_page = 1, r_limit = 10, r_totalPages = Finite 0, r_data = []\<rparr>)"
  by (simp add: example_defs searchPune_def MasterService_findAll_def buildQuery_def runFind_def
      countDocuments_def matches_def Math_ceil_div_def sortBy_def getProp_def toLowerCase_def)

end
